theory Spec2Isabelle
  imports Complex_Main "HOL-Library.Word" "HOL-Library.Sublist"
begin

section \<open>JavaScript strings and values\<close>

text \<open>
  A JavaScript string is a sequence of 16-bit code units. The regular expressions of
  the worker carry no \<open>u\<close> flag, so matching works on code units as well.
  ASCII literals are written \<open>js ''...''\<close>; the Cyrillic literals of the source are
  spelled out as code units.
\<close>

type_synonym jsstr = "16 word list"

definition js :: "string \<Rightarrow> jsstr" where
  "js s = map of_char s"

text \<open>
  Values as \<open>JSON.parse\<close> produces them. \<open>undefined\<close> is \<open>None\<close> of
  \<open>jsval option\<close>. A finite double is a rational; only equality and the test for zero
  are ever applied to a number here. An object is the sequence of its own properties; the first
  binding of a key is the one property reads see.
\<close>

datatype jsval =
    JNull
  | JBool bool
  | JNum rat
  | JStr jsstr
  | JArr "jsval list"
  | JObj "(jsstr \<times> jsval) list"

datatype native_error = SyntaxError | TypeError | ReferenceError | InvalidCharacterError | NetworkError

text \<open>
  What a \<open>throw\<close> carries: \<open>new Error(message)\<close> raised by the worker itself, or an
  error raised by the runtime.
\<close>

datatype exn = Error jsstr | Native native_error

definition thenE :: "exn + 'a \<Rightarrow> ('a \<Rightarrow> exn + 'b) \<Rightarrow> exn + 'b" where
  "thenE m f = (case m of Inl e \<Rightarrow> Inl e | Inr a \<Rightarrow> f a)"

text \<open>ToBoolean: what \<open>!v\<close> and \<open>&&\<close> test.\<close>

fun truthy :: "jsval option \<Rightarrow> bool" where
  "truthy None = False"
| "truthy (Some JNull) = False"
| "truthy (Some (JBool b)) = b"
| "truthy (Some (JNum n)) = (n \<noteq> 0)"
| "truthy (Some (JStr s)) = (s \<noteq> [])"
| "truthy (Some (JArr xs)) = True"
| "truthy (Some (JObj kvs)) = True"

text \<open>
  The property read \<open>v.k\<close> for a key \<open>k\<close> that no built-in prototype defines (every key
  the worker reads is such a key): a TypeError on \<open>undefined\<close> and \<open>null\<close>, the own
  property of an object, \<open>undefined\<close> on everything else.
\<close>

fun get :: "jsval option \<Rightarrow> jsstr \<Rightarrow> exn + jsval option" where
  "get None k = Inl (Native TypeError)"
| "get (Some JNull) k = Inl (Native TypeError)"
| "get (Some (JObj kvs)) k = Inr (map_of kvs k)"
| "get (Some v) k = Inr None"

text \<open>The indexed read \<open>v[0]\<close>.\<close>

fun at0 :: "jsval option \<Rightarrow> exn + jsval option" where
  "at0 None = Inl (Native TypeError)"
| "at0 (Some JNull) = Inl (Native TypeError)"
| "at0 (Some (JArr [])) = Inr None"
| "at0 (Some (JArr (x # xs))) = Inr (Some x)"
| "at0 (Some (JStr [])) = Inr None"
| "at0 (Some (JStr (c # cs))) = Inr (Some (JStr [c]))"
| "at0 (Some (JObj kvs)) = Inr (map_of kvs (js ''0''))"
| "at0 (Some v) = Inr None"

text \<open>
  Strict equality \<open>a === b\<close> between values of two different parses: primitives compare by
  value, an object or an array is never identical to one from another parse.
\<close>

fun primitive :: "jsval option \<Rightarrow> bool" where
  "primitive (Some (JArr xs)) = False"
| "primitive (Some (JObj kvs)) = False"
| "primitive v = True"

definition strict_eq :: "jsval option \<Rightarrow> jsval option \<Rightarrow> bool" where
  "strict_eq a b = (primitive a \<and> a = b)"

text \<open>
  An object literal handed to \<open>JSON.stringify\<close>: a property whose value is
  \<open>undefined\<close> is left out.
\<close>

definition obj :: "(jsstr \<times> jsval option) list \<Rightarrow> jsval" where
  "obj kvs = JObj (List.map_filter (\<lambda>(k, v). map_option (Pair k) v) kvs)"

section \<open>The replacement of the prompt placeholders\<close>

text \<open>
  \<open>GetSubstitution\<close> of ECMAScript for a pattern without capture groups: in the replacement
  text \<open>$$\<close> stands for a dollar sign, \<open>$&\<close> for the matched text, \<open>$`\<close> for the part
  of the subject before the match and \<open>$'\<close> for the part after it. \<open>$n\<close> and \<open>$<\<close>
  refer to groups the pattern does not have and are copied literally, as every other character is.
\<close>

fun getSubstitution :: "jsstr \<Rightarrow> jsstr \<Rightarrow> jsstr \<Rightarrow> jsstr \<Rightarrow> jsstr" where
  "getSubstitution matched before after [] = []"
| "getSubstitution matched before after [c] = [c]"
| "getSubstitution matched before after (c # d # r) =
     (if c = 0x24 \<and> d = 0x24 then 0x24 # getSubstitution matched before after r
      else if c = 0x24 \<and> d = 0x26 then matched @ getSubstitution matched before after r
      else if c = 0x24 \<and> d = 0x60 then before @ getSubstitution matched before after r
      else if c = 0x24 \<and> d = 0x27 then after @ getSubstitution matched before after r
      else c # getSubstitution matched before after (d # r))"

text \<open>
  \<open>subject.replace(/pat/g, rep)\<close> for a pattern \<open>pat\<close> that is a literal, non-empty text:
  the subject is scanned from the left, every match is replaced and the scan goes on behind the
  match. \<open>seen\<close> is the part of the subject already scanned.
\<close>

function replaceAll :: "jsstr \<Rightarrow> jsstr \<Rightarrow> jsstr \<Rightarrow> jsstr \<Rightarrow> jsstr" where
  "replaceAll pat rep seen [] = []"
| "replaceAll pat rep seen (c # cs) =
     (if pat \<noteq> [] \<and> prefix pat (c # cs)
      then getSubstitution pat seen (drop (length pat - 1) cs) rep
           @ replaceAll pat rep (seen @ pat) (drop (length pat - 1) cs)
      else c # replaceAll pat rep (seen @ [c]) cs)"
  by pat_completeness auto
termination
  by (relation "measure (\<lambda>(pat, rep, seen, s). length s)") auto

definition replace_g :: "jsstr \<Rightarrow> jsstr \<Rightarrow> jsstr \<Rightarrow> jsstr" where
  "replace_g pat rep subject = replaceAll pat rep [] subject"

definition product_data_text :: jsstr where
  "product_data_text =
     [0x434, 0x430, 0x43D, 0x43D, 0x44B, 0x435, 0x20, 0x43E, 0x20, 0x442, 0x43E, 0x432, 0x430,
      0x440, 0x430, 0x445]"

definition size_chart_text :: jsstr where
  "size_chart_text =
     [0x442, 0x430, 0x431, 0x43B, 0x438, 0x446, 0x430, 0x20, 0x440, 0x430, 0x437, 0x43C, 0x435,
      0x440, 0x43E, 0x432]"

definition order_status_text :: jsstr where
  "order_status_text =
     [0x441, 0x442, 0x430, 0x442, 0x443, 0x441, 0x20, 0x437, 0x430, 0x43A, 0x430, 0x437, 0x430]"

text \<open>The six chained \<open>.replace\<close> calls at the head of \<open>callGeminiApi\<close>.\<close>

definition finalPrompt :: "jsstr \<Rightarrow> jsstr \<Rightarrow> jsstr" where
  "finalPrompt promptTemplate userMessage =
     replace_g (js ''{{order_status_data}}'') order_status_text
      (replace_g (js ''{{order_number}}'') userMessage
       (replace_g (js ''{{user_measurements}}'') userMessage
        (replace_g (js ''{{size_chart}}'') size_chart_text
         (replace_g (js ''{{product_data}}'') product_data_text
          (replace_g (js ''{{user_preferences}}'') userMessage promptTemplate)))))"

section \<open>The world around the worker\<close>

text \<open>
  A text together with what \<open>JSON.parse\<close> makes of it (\<open>None\<close>: a SyntaxError). Parsing
  is the runtime's work, not the worker's, so both readings are given.
\<close>

record body_text =
  raw :: jsstr
  parsed :: "jsval option"

datatype http_method = GET | POST | PUT

text \<open>
  An outbound \<open>fetch(url, {method, headers, body})\<close>. \<open>f_body\<close> is the value handed to
  \<open>JSON.stringify\<close>; \<open>f_url\<close> is the first argument as the code passes it, which is
  \<open>undefined\<close> when the metadata has no \<open>download_url\<close>.
\<close>

record fetch_request =
  f_url :: "jsval option"
  f_method :: http_method
  f_headers :: "(jsstr \<times> jsstr) list"
  f_body :: "jsval option"

record http_response =
  r_status :: nat
  r_statusText :: jsstr
  r_body :: body_text

definition ok :: "http_response \<Rightarrow> bool" where
  "ok r = (200 \<le> r_status r \<and> r_status r \<le> 299)"

text \<open>
  Everything the worker takes from its runtime and from the network: the answer to each
  outbound request (\<open>None\<close>: the call of \<open>fetch\<close> fails, whatever the reason), the text
  that \<open>ToString\<close> gives for a value that is not a string and on which it does not raise,
  the \<open>message\<close> of an error the runtime raises,
  \<open>JSON.stringify(v, null, 4)\<close> and the Base64 alphabet encoding behind \<open>btoa\<close>.
  No handler makes the same request twice within one invocation, so answers that depend on the
  request alone lose nothing.
\<close>

record world =
  fetch :: "fetch_request \<Rightarrow> http_response option"
  ToString :: "jsval option \<Rightarrow> jsstr"
  native_message :: "native_error \<Rightarrow> jsstr"
  stringify_indent4 :: "jsval \<Rightarrow> jsstr"
  base64 :: "jsstr \<Rightarrow> jsstr"

record env =
  GITHUB_OWNER :: "jsstr option"
  GITHUB_REPO :: "jsstr option"
  PROMPTS_PATH :: "jsstr option"
  GITHUB_PAT :: "jsstr option"
  GEMINI_API_KEY :: "jsstr option"
  TELEGRAM_BOT_TOKEN :: "jsstr option"

text \<open>The inbound request: what \<open>await request.json()\<close> yields (\<open>None\<close>: a SyntaxError).\<close>

record request =
  json_body :: "jsval option"

datatype response_body = Json jsval | Text jsstr

record response =
  status :: nat
  payload :: response_body

text \<open>
  An asynchronous computation of the worker: its outcome, a thrown error or a value, and the
  outbound requests it has made, in order.
\<close>

type_synonym 'a io = "(exn + 'a) \<times> fetch_request list"

definition ret :: "'a \<Rightarrow> 'a io" where
  "ret x = (Inr x, [])"

definition throw :: "exn \<Rightarrow> 'a io" where
  "throw e = (Inl e, [])"

definition lift :: "exn + 'a \<Rightarrow> 'a io" where
  "lift r = (r, [])"

definition then_io :: "'a io \<Rightarrow> ('a \<Rightarrow> 'b io) \<Rightarrow> 'b io" where
  "then_io m f =
     (case m of
        (Inl e, t) \<Rightarrow> (Inl e, t)
      | (Inr a, t) \<Rightarrow> (case f a of (r, t') \<Rightarrow> (r, t @ t')))"

definition do_fetch :: "world \<Rightarrow> fetch_request \<Rightarrow> http_response io" where
  "do_fetch w rq =
     (case fetch w rq of
        None \<Rightarrow> (Inl (Native NetworkError), [rq])
      | Some r \<Rightarrow> (Inr r, [rq]))"

definition JSON_parse :: "body_text \<Rightarrow> exn + jsval" where
  "JSON_parse t = (case parsed t of None \<Rightarrow> Inl (Native SyntaxError) | Some v \<Rightarrow> Inr v)"

definition request_json :: "request \<Rightarrow> exn + jsval" where
  "request_json rq = (case json_body rq of None \<Rightarrow> Inl (Native SyntaxError) | Some v \<Rightarrow> Inr v)"

text \<open>\<open>error.message\<close>.\<close>

fun message_of :: "world \<Rightarrow> exn \<Rightarrow> jsstr" where
  "message_of w (Error m) = m"
| "message_of w (Native e) = native_message w e"

text \<open>A string inside a template literal; \<open>undefined\<close> prints as such.\<close>

fun show_env :: "jsstr option \<Rightarrow> jsstr" where
  "show_env None = js ''undefined''"
| "show_env (Some s) = s"

text \<open>\<open>!env.X\<close> is false exactly for a non-empty string.\<close>

fun configured :: "jsstr option \<Rightarrow> bool" where
  "configured None = False"
| "configured (Some s) = (s \<noteq> [])"

text \<open>
  \<open>ToString\<close> of a value, as a template literal and the replacement argument of
  \<open>replace\<close> apply it. On an object it calls the \<open>toString\<close> member; a parsed object
  that has a member of that name of its own has a value there that cannot be called, and the
  conversion raises a TypeError. An array joins the conversions of its elements (nothing for
  \<open>null\<close>), so it raises when one of them does. Every other value converts.
\<close>

fun ToString_raises :: "jsval \<Rightarrow> bool" where
  "ToString_raises (JObj kvs) = (case map_of kvs (js ''toString'') of None \<Rightarrow> False | Some v \<Rightarrow> True)"
| "ToString_raises (JArr xs) = list_ex ToString_raises xs"
| "ToString_raises v = False"

definition to_str :: "world \<Rightarrow> jsval option \<Rightarrow> exn + jsstr" where
  "to_str w v =
     (case v of
        None \<Rightarrow> Inr (js ''undefined'')
      | Some (JStr s) \<Rightarrow> Inr s
      | Some x \<Rightarrow> if ToString_raises x then Inl (Native TypeError) else Inr (ToString w v))"

text \<open>The decimal digits of a status code.\<close>

function dec :: "nat \<Rightarrow> jsstr" where
  "dec n = (if n < 10 then [of_nat (48 + n)] else dec (n div 10) @ [of_nat (48 + n mod 10)])"
  by pat_completeness auto
termination
  by (relation "measure (\<lambda>n. n)") auto

declare dec.simps [simp del]

text \<open>
  \<open>btoa\<close>: an InvalidCharacterError when a code unit is above 255, the Base64 text otherwise.
\<close>

definition btoa :: "world \<Rightarrow> jsstr \<Rightarrow> exn + jsstr" where
  "btoa w s =
     (if list_all (\<lambda>c. c \<le> 0xFF) s then Inr (base64 w s)
      else Inl (Native InvalidCharacterError))"

text \<open>\<open>String.prototype.trim\<close>: white space and line terminators go from both ends.\<close>

definition white_space :: "16 word \<Rightarrow> bool" where
  "white_space c =
     (c = 0x9 \<or> c = 0xA \<or> c = 0xB \<or> c = 0xC \<or> c = 0xD \<or> c = 0x20 \<or> c = 0xA0
      \<or> c = 0x1680 \<or> (0x2000 \<le> c \<and> c \<le> 0x200A) \<or> c = 0x2028 \<or> c = 0x2029
      \<or> c = 0x202F \<or> c = 0x205F \<or> c = 0x3000 \<or> c = 0xFEFF)"

definition trim :: "jsstr \<Rightarrow> jsstr" where
  "trim s = rev (dropWhile white_space (rev (dropWhile white_space s)))"

definition json_response :: "nat \<Rightarrow> jsval \<Rightarrow> response" where
  "json_response st v = \<lparr>status = st, payload = Json v\<rparr>"

definition text_response :: "nat \<Rightarrow> jsstr \<Rightarrow> response" where
  "text_response st s = \<lparr>status = st, payload = Text s\<rparr>"

section \<open>Helper functions of the worker\<close>

definition GITHUB_API_URL :: jsstr where
  "GITHUB_API_URL = js ''https://api.github.com''"

definition GEMINI_MODEL :: jsstr where
  "GEMINI_MODEL = js ''gemini-2.5-flash''"

definition contents_url :: "jsstr option \<Rightarrow> jsstr option \<Rightarrow> jsstr option \<Rightarrow> jsstr" where
  "contents_url owner repo path =
     GITHUB_API_URL @ js ''/repos/'' @ show_env owner @ js ''/'' @ show_env repo
       @ js ''/contents/'' @ show_env path"

definition metadata_request :: "jsstr option \<Rightarrow> jsstr option \<Rightarrow> jsstr option \<Rightarrow> fetch_request" where
  "metadata_request owner repo path =
     \<lparr>f_url = Some (JStr (contents_url owner repo path)), f_method = GET,
      f_headers = [(js ''Accept'', js ''application/vnd.github.v3+json'')], f_body = None\<rparr>"

definition content_request :: "jsval option \<Rightarrow> fetch_request" where
  "content_request download_url =
     \<lparr>f_url = download_url, f_method = GET, f_headers = [], f_body = None\<rparr>"

text \<open>
  \<open>fetchPromptsFromGitHub\<close>: the metadata request, then the raw content behind
  \<open>metadata.download_url\<close>. The result is the pair \<open>{content, sha}\<close>.
\<close>

definition fetchPromptsFromGitHub ::
  "world \<Rightarrow> jsstr option \<Rightarrow> jsstr option \<Rightarrow> jsstr option \<Rightarrow> (body_text \<times> jsval option) io" where
  "fetchPromptsFromGitHub w owner repo path =
     then_io (do_fetch w (metadata_request owner repo path))
       (\<lambda>metadataResponse.
          if ok metadataResponse then
            then_io (lift (JSON_parse (r_body metadataResponse)))
              (\<lambda>metadata.
                 then_io (lift (get (Some metadata) (js ''sha'')))
                   (\<lambda>sha.
                      then_io (lift (get (Some metadata) (js ''download_url'')))
                        (\<lambda>download_url.
                           then_io (do_fetch w (content_request download_url))
                             (\<lambda>contentResponse.
                                if ok contentResponse then ret (r_body contentResponse, sha)
                                else throw (Error (js ''Failed to fetch raw prompts content from GitHub: ''
                                                   @ r_statusText contentResponse))))))
          else throw (Error (js ''Failed to fetch prompts metadata from GitHub: ''
                             @ r_statusText metadataResponse)))"

definition fallback_text :: jsstr where
  "fallback_text =
     [0x418, 0x437, 0x432, 0x438, 0x43D, 0x438, 0x442, 0x435, 0x2C, 0x20, 0x43D, 0x435, 0x20,
      0x443, 0x434, 0x430, 0x43B, 0x43E, 0x441, 0x44C, 0x20, 0x43F, 0x43E, 0x43B, 0x443, 0x447,
      0x438, 0x442, 0x44C, 0x20, 0x43E, 0x442, 0x432, 0x435, 0x442, 0x20, 0x43E, 0x442, 0x20,
      0x41, 0x49, 0x2E, 0x20, 0x41F, 0x43E, 0x43F, 0x440, 0x43E, 0x431, 0x443, 0x439, 0x442,
      0x435, 0x20, 0x43F, 0x435, 0x440, 0x435, 0x444, 0x440, 0x430, 0x437, 0x438, 0x440, 0x43E,
      0x432, 0x430, 0x442, 0x44C, 0x20, 0x437, 0x430, 0x43F, 0x440, 0x43E, 0x441, 0x2E]"

text \<open>
  The extraction at the end of \<open>callGeminiApi\<close>: the chain of \<open>&&\<close> over
  \<open>json.candidates\<close>, \<open>json.candidates[0]\<close>, \<open>.content\<close> and \<open>.parts\<close>, then
  \<open>parts[0].text\<close> or the fixed text.
\<close>

definition extract_text :: "jsval \<Rightarrow> exn + jsval option" where
  "extract_text json =
     thenE (get (Some json) (js ''candidates''))
       (\<lambda>candidates.
          if truthy candidates then
            thenE (at0 candidates)
              (\<lambda>candidate.
                 if truthy candidate then
                   thenE (get candidate (js ''content''))
                     (\<lambda>content.
                        if truthy content then
                          thenE (get content (js ''parts''))
                            (\<lambda>parts.
                               if truthy parts then
                                 thenE (at0 parts) (\<lambda>part. get part (js ''text''))
                               else Inr (Some (JStr fallback_text)))
                        else Inr (Some (JStr fallback_text)))
                 else Inr (Some (JStr fallback_text)))
          else Inr (Some (JStr fallback_text)))"

definition gemini_request :: "jsstr \<Rightarrow> jsstr \<Rightarrow> fetch_request" where
  "gemini_request apiKey prompt =
     \<lparr>f_url = Some (JStr (js ''https://generativelanguage.googleapis.com/v1beta/models/''
                          @ GEMINI_MODEL @ js '':generateContent?key='' @ apiKey)),
      f_method = POST,
      f_headers = [(js ''Content-Type'', js ''application/json'')],
      f_body = Some (obj [(js ''contents'',
                 Some (JArr [obj [(js ''role'', Some (JStr (js ''user''))),
                                  (js ''parts'', Some (JArr [obj [(js ''text'', Some (JStr prompt))]]))]]))])\<rparr>"

text \<open>
  \<open>callGeminiApi\<close>. \<open>promptTemplate.replace\<close> is a TypeError unless the template is a
  string; the user message, as replacement text, goes through \<open>ToString\<close>, which can
  raise, before any request is made.
\<close>

definition callGeminiApi :: "world \<Rightarrow> jsval option \<Rightarrow> jsval option \<Rightarrow> jsstr \<Rightarrow> (jsval option) io" where
  "callGeminiApi w promptTemplate userMessage apiKey =
     (case promptTemplate of
        Some (JStr template) \<Rightarrow>
          then_io (lift (to_str w userMessage))
            (\<lambda>replacement.
               then_io (do_fetch w (gemini_request apiKey (finalPrompt template replacement)))
                 (\<lambda>response.
                    if ok response then
                      then_io (lift (JSON_parse (r_body response))) (\<lambda>json. lift (extract_text json))
                    else throw (Error (js ''Gemini API error: '' @ dec (r_status response)
                                       @ js '' - '' @ raw (r_body response)))))
      | _ \<Rightarrow> throw (Native TypeError))"

section \<open>Route handlers\<close>

text \<open>
  \<open>prompts.find(p => p.id === function_id)\<close> on the elements of an array: the first
  element whose \<open>id\<close> is identical to \<open>function_id\<close>, \<open>undefined\<close> when there is none,
  a TypeError when an element met on the way is \<open>null\<close>.
\<close>

fun find_prompt :: "jsval list \<Rightarrow> jsval option \<Rightarrow> exn + jsval option" where
  "find_prompt [] function_id = Inr None"
| "find_prompt (p # ps) function_id =
     thenE (get (Some p) (js ''id''))
       (\<lambda>pid. if strict_eq pid function_id then Inr (Some p) else find_prompt ps function_id)"

text \<open>\<open>prompts.find\<close> is a function only when \<open>prompts\<close> is an array.\<close>

fun find_in :: "jsval \<Rightarrow> jsval option \<Rightarrow> exn + jsval option" where
  "find_in (JArr ps) function_id = find_prompt ps function_id"
| "find_in v function_id = Inl (Native TypeError)"

text \<open>The body of the \<open>try\<close> block of \<open>handleChat\<close>.\<close>

definition handleChat_try :: "world \<Rightarrow> request \<Rightarrow> env \<Rightarrow> response io" where
  "handleChat_try w request env =
     then_io (lift (request_json request))
       (\<lambda>parsed_body.
          then_io (lift (get (Some parsed_body) (js ''message'')))
            (\<lambda>message.
               then_io (lift (get (Some parsed_body) (js ''function_id'')))
                 (\<lambda>function_id.
                    if truthy message \<and> truthy function_id then
                      (if configured (GEMINI_API_KEY env) then
                         then_io (fetchPromptsFromGitHub w (GITHUB_OWNER env) (GITHUB_REPO env)
                                    (PROMPTS_PATH env))
                           (\<lambda>(promptsContent, sha).
                              then_io (lift (JSON_parse promptsContent))
                                (\<lambda>prompts.
                                   then_io (lift (find_in prompts function_id))
                                     (\<lambda>selectedPrompt.
                                        if truthy selectedPrompt then
                                          then_io (lift (get selectedPrompt (js ''prompt'')))
                                            (\<lambda>promptTemplate.
                                               then_io (callGeminiApi w promptTemplate message
                                                          (show_env (GEMINI_API_KEY env)))
                                                 (\<lambda>aiResponse.
                                                    ret (json_response 200
                                                           (obj [(js ''response'', aiResponse)]))))
                                        else
                                          then_io (lift (to_str w function_id))
                                            (\<lambda>shown.
                                               ret (json_response 404
                                                      (obj [(js ''error'',
                                                         Some (JStr (js ''Function ID '' @ [0x27]
                                                           @ shown @ [0x27]
                                                           @ js '' not found.'')))]))))))
                       else
                         ret (json_response 500
                                (obj [(js ''error'',
                                   Some (JStr (js ''GEMINI_API_KEY is not configured.'')))])))
                    else
                      ret (json_response 400
                             (obj [(js ''error'',
                                Some (JStr (js ''Missing '' @ [0x27] @ js ''message'' @ [0x27]
                                  @ js '' or '' @ [0x27] @ js ''function_id'' @ [0x27])))])))))"

text \<open>\<open>handleChat\<close>: the \<open>catch\<close> turns every error of the block into a response.\<close>

definition handleChat :: "world \<Rightarrow> request \<Rightarrow> env \<Rightarrow> response \<times> fetch_request list" where
  "handleChat w request env =
     (case handleChat_try w request env of
        (Inr r, t) \<Rightarrow> (r, t)
      | (Inl error, t) \<Rightarrow>
          (json_response 500
             (obj [(js ''error'',
                Some (JStr (js ''Internal Server Error during chat processing: ''
                            @ message_of w error)))]), t))"

definition commit_request :: "env \<Rightarrow> jsstr \<Rightarrow> jsval option \<Rightarrow> fetch_request" where
  "commit_request env content sha =
     \<lparr>f_url = Some (JStr (contents_url (GITHUB_OWNER env) (GITHUB_REPO env) (PROMPTS_PATH env))),
      f_method = PUT,
      f_headers = [(js ''Authorization'', js ''token '' @ show_env (GITHUB_PAT env)),
                   (js ''Content-Type'', js ''application/json''),
                   (js ''Accept'', js ''application/vnd.github.v3+json'')],
      f_body = Some (obj [(js ''message'', Some (JStr (js ''Update prompts.json from Admin Panel''))),
                          (js ''content'', Some (JStr content)),
                          (js ''sha'', sha)])\<rparr>"

text \<open>The body of the \<open>try\<close> block of \<open>handleSavePrompts\<close>.\<close>

definition handleSavePrompts_try :: "world \<Rightarrow> request \<Rightarrow> env \<Rightarrow> response io" where
  "handleSavePrompts_try w request env =
     then_io (lift (request_json request))
       (\<lambda>newPromptsJson.
          then_io (fetchPromptsFromGitHub w (GITHUB_OWNER env) (GITHUB_REPO env) (PROMPTS_PATH env))
            (\<lambda>(content, sha).
               then_io (lift (btoa w (stringify_indent4 w newPromptsJson)))
                 (\<lambda>encoded.
                    then_io (do_fetch w (commit_request env encoded sha))
                      (\<lambda>commitResponse.
                         if ok commitResponse then
                           ret (json_response 200
                                  (obj [(js ''success'', Some (JBool True)),
                                        (js ''message'',
                                         Some (JStr (js ''Prompts successfully saved and committed to GitHub.'')))]))
                         else
                           throw (Error (js ''Failed to commit to GitHub: ''
                                         @ dec (r_status commitResponse) @ js '' - ''
                                         @ raw (r_body commitResponse)))))))"

definition handleSavePrompts :: "world \<Rightarrow> request \<Rightarrow> env \<Rightarrow> response \<times> fetch_request list" where
  "handleSavePrompts w request env =
     (if configured (GITHUB_PAT env) then
        (case handleSavePrompts_try w request env of
           (Inr r, t) \<Rightarrow> (r, t)
         | (Inl error, t) \<Rightarrow>
             (json_response 500
                (obj [(js ''error'',
                   Some (JStr (js ''Internal Server Error during prompt saving: ''
                               @ message_of w error)))]), t))
      else
        (json_response 500
           (obj [(js ''error'', Some (JStr (js ''GITHUB_PAT secret is not configured.'')))]), []))"

section \<open>The Telegram webhook\<close>

text \<open>\<open>sendTelegramMessage\<close>: one POST whose answer is not looked at.\<close>

definition sendTelegramMessage :: "world \<Rightarrow> jsval option \<Rightarrow> jsval option \<Rightarrow> jsstr \<Rightarrow> unit io" where
  "sendTelegramMessage w chatId text token =
     then_io (do_fetch w \<lparr>f_url = Some (JStr (js ''https://api.telegram.org/bot'' @ token
                                               @ js ''/sendMessage'')),
                f_method = POST,
                f_headers = [(js ''Content-Type'', js ''application/json'')],
                f_body = Some (obj [(js ''chat_id'', chatId), (js ''text'', text),
                                    (js ''parse_mode'', Some (JStr (js ''Markdown'')))])\<rparr>)
       (\<lambda>answer. ret ())"

definition error_prefix_text :: jsstr where
  "error_prefix_text =
     [0x41F, 0x440, 0x43E, 0x438, 0x437, 0x43E, 0x448, 0x43B, 0x430, 0x20, 0x43E, 0x448, 0x438,
      0x431, 0x43A, 0x430, 0x3A, 0x20]"

text \<open>\<open>await chatResponse.json()\<close>: the value \<open>handleChat\<close> has put into the response.\<close>

fun response_json :: "response_body \<Rightarrow> exn + jsval" where
  "response_json (Json v) = Inr v"
| "response_json (Text s) = Inl (Native SyntaxError)"

text \<open>\<open>message.text.trim()\<close> is a TypeError unless the text is a string.\<close>

fun trimmed :: "jsval option \<Rightarrow> exn + jsstr" where
  "trimmed (Some (JStr s)) = Inr (trim s)"
| "trimmed v = Inl (Native TypeError)"

text \<open>The body of the \<open>try\<close> block of \<open>handleTelegramWebhook\<close>.\<close>

definition handleTelegramWebhook_try :: "world \<Rightarrow> request \<Rightarrow> env \<Rightarrow> response io" where
  "handleTelegramWebhook_try w request env =
     then_io (lift (request_json request))
       (\<lambda>update.
          then_io (lift (get (Some update) (js ''message'')))
            (\<lambda>message.
               if truthy message then
                 then_io (lift (get message (js ''text'')))
                   (\<lambda>message_text.
                      if truthy message_text then
                        then_io (lift (get message (js ''chat'')))
                          (\<lambda>chat.
                             then_io (lift (get chat (js ''id'')))
                               (\<lambda>chatId.
                                  then_io (lift (trimmed message_text))
                                    (\<lambda>userText.
                                       then_io
                                         (case handleChat w
                                                 \<lparr>json_body = Some (obj
                                                    [(js ''message'', Some (JStr userText)),
                                                     (js ''function_id'',
                                                      Some (JStr (js ''product_recommendation'')))])\<rparr>
                                                 env of
                                            (chatResponse, t) \<Rightarrow> (Inr chatResponse, t))
                                         (\<lambda>chatResponse.
                                            then_io (lift (response_json (payload chatResponse)))
                                              (\<lambda>chatJson.
                                                 then_io (lift (get (Some chatJson) (js ''error'')))
                                                   (\<lambda>chat_error.
                                                      then_io
                                                        (if truthy chat_error then
                                                           then_io (lift (to_str w chat_error))
                                                             (\<lambda>shown.
                                                                ret (Some (JStr (error_prefix_text
                                                                       @ shown))))
                                                         else lift (get (Some chatJson) (js ''response'')))
                                                        (\<lambda>responseText.
                                                           then_io
                                                             (sendTelegramMessage w chatId responseText
                                                                (show_env (TELEGRAM_BOT_TOKEN env)))
                                                             (\<lambda>sent. ret (text_response 200 (js ''OK''))))))))))
                      else ret (text_response 200 (js ''OK'')))
               else ret (text_response 200 (js ''OK''))))"

text \<open>
  \<open>handleTelegramWebhook\<close>. \<open>update\<close> is declared with \<open>const\<close> inside the \<open>try\<close>
  block, so it is not in scope in the \<open>catch\<close> block: there the test
  \<open>if (update && ...)\<close> reads a name that nothing binds and raises a ReferenceError, before the
  notification and the response \<open>500 "Error"\<close> behind it are reached. The error leaves the
  handler.
\<close>

definition handleTelegramWebhook :: "world \<Rightarrow> request \<Rightarrow> env \<Rightarrow> response io" where
  "handleTelegramWebhook w request env =
     (if configured (TELEGRAM_BOT_TOKEN env) then
        (case handleTelegramWebhook_try w request env of
           (Inr r, t) \<Rightarrow> (Inr r, t)
         | (Inl error, t) \<Rightarrow> (Inl (Native ReferenceError), t))
      else ret (text_response 500 (js ''TELEGRAM_BOT_TOKEN is not configured.'')))"

section \<open>Sample configurations\<close>

text \<open>
  Concrete surroundings on which the theorems below are instantiated: a configuration with
  every secret set, answers of the network chosen by the kind of request (the metadata read is the
  GET with an \<open>Accept\<close> header, the content read the GET without headers, the commit the PUT,
  the completion backend and Telegram the POSTs), and fixed stand-ins for the runtime's own
  functions. The raw text of an answer is abbreviated where only its parsed value is read.
\<close>

definition sample_env :: env where
  "sample_env =
     \<lparr>GITHUB_OWNER = Some (js ''shop''), GITHUB_REPO = Some (js ''assistant''),
      PROMPTS_PATH = Some (js ''prompts.json''), GITHUB_PAT = Some (js ''pat''),
      GEMINI_API_KEY = Some (js ''key''), TELEGRAM_BOT_TOKEN = Some (js ''bot'')\<rparr>"

definition reply :: "nat \<Rightarrow> string \<Rightarrow> string \<Rightarrow> jsval option \<Rightarrow> http_response" where
  "reply st reason text value =
     \<lparr>r_status = st, r_statusText = js reason, r_body = \<lparr>raw = js text, parsed = value\<rparr>\<rparr>"

definition answers ::
  "http_response option \<Rightarrow> http_response option \<Rightarrow> http_response option \<Rightarrow> http_response option
     \<Rightarrow> fetch_request \<Rightarrow> http_response option" where
  "answers metadata content commit posted rq =
     (if f_method rq = PUT then commit
      else if f_method rq = POST then posted
      else if f_headers rq = [] then content
      else metadata)"

definition sample_world :: "(fetch_request \<Rightarrow> http_response option) \<Rightarrow> world" where
  "sample_world net =
     \<lparr>fetch = net, ToString = (\<lambda>v. js ''[object Object]''),
      native_message = (\<lambda>e. js ''native error''),
      stringify_indent4 = (\<lambda>v. js ''[]''), base64 = (\<lambda>s. js ''W10='')\<rparr>"

definition sample_metadata :: http_response where
  "sample_metadata =
     reply 200 ''OK'' ''{...}''
       (Some (JObj [(js ''sha'', JStr (js ''T1'')), (js ''download_url'', JStr (js ''https://raw/prompts.json''))]))"

definition sample_document :: http_response where
  "sample_document =
     reply 200 ''OK'' ''[...]''
       (Some (JArr [JObj [(js ''id'', JStr (js ''a'')), (js ''prompt'', JStr (js ''Hello {{name}}''))],
                    JObj [(js ''id'', JStr (js ''b'')), (js ''prompt'', JStr (js ''Size: {{size_chart}}''))]]))"

definition chat_request :: "string \<Rightarrow> string \<Rightarrow> request" where
  "chat_request message function_id =
     \<lparr>json_body = Some (JObj [(js ''message'', JStr (js message)),
                               (js ''function_id'', JStr (js function_id))])\<rparr>"

definition sample_completion :: http_response where
  "sample_completion =
     reply 200 ''OK'' ''{...}''
       (Some (JObj [(js ''candidates'',
          JArr [JObj [(js ''content'',
                  JObj [(js ''parts'', JArr [JObj [(js ''text'', JStr (js ''Hi!''))]])])]])]))"

definition empty_parts_completion :: http_response where
  "empty_parts_completion =
     reply 200 ''OK'' ''{...}''
       (Some (JObj [(js ''candidates'',
          JArr [JObj [(js ''content'', JObj [(js ''parts'', JArr [])])]])]))"

definition online :: "http_response \<Rightarrow> world" where
  "online commit_answer =
     sample_world (answers (Some sample_metadata) (Some sample_document) (Some commit_answer)
                     (Some sample_completion))"

definition offline :: world where
  "offline = sample_world (\<lambda>rq. None)"

definition text_update :: "string \<Rightarrow> request" where
  "text_update text =
     \<lparr>json_body = Some (JObj [(js ''message'',
        JObj [(js ''chat'', JObj [(js ''id'', JNum 7)]), (js ''text'', JStr (js text))])])\<rparr>"

section \<open>Notions used in the statements\<close>

text \<open>
  The conditional write was accepted: among the requests made there is a PUT that the store
  answered with a success status.
\<close>

definition write_accepted :: "world \<Rightarrow> fetch_request list \<Rightarrow> bool" where
  "write_accepted w t =
     list_ex (\<lambda>rq. f_method rq = PUT \<and> (case fetch w rq of None \<Rightarrow> False | Some r \<Rightarrow> ok r)) t"

text \<open>The response of \<open>handleSavePrompts\<close> after an accepted commit.\<close>

definition saved_response :: response where
  "saved_response =
     json_response 200
       (obj [(js ''success'', Some (JBool True)),
             (js ''message'',
              Some (JStr (js ''Prompts successfully saved and committed to GitHub.'')))])"

section \<open>Substitution that does not scan substituted values\<close>

text \<open>
  The text under substitution as the specification sees it: a sequence of pieces, each a
  character of the template that is still open to matching, or a value that a substitution has
  put in and that is closed to every later one.
\<close>

datatype piece = Raw "16 word" | Val jsstr

fun flatten :: "piece list \<Rightarrow> jsstr" where
  "flatten [] = []"
| "flatten (Raw c # ps) = c # flatten ps"
| "flatten (Val v # ps) = v @ flatten ps"

text \<open>The pattern is spelled by the pieces at the head, all of them characters of the template.\<close>

fun raw_prefix :: "jsstr \<Rightarrow> piece list \<Rightarrow> bool" where
  "raw_prefix [] ps = True"
| "raw_prefix (c # cs) (Raw d # ps) = (c = d \<and> raw_prefix cs ps)"
| "raw_prefix (c # cs) ps = False"

text \<open>One substitution: a scan from the left that steps over the values already put in.\<close>

function substitute :: "jsstr \<Rightarrow> jsstr \<Rightarrow> piece list \<Rightarrow> piece list" where
  "substitute pat v [] = []"
| "substitute pat v (Val x # ps) = Val x # substitute pat v ps"
| "substitute pat v (Raw c # ps) =
     (if pat \<noteq> [] \<and> raw_prefix pat (Raw c # ps)
      then Val v # substitute pat v (drop (length pat - 1) ps)
      else Raw c # substitute pat v ps)"
  by pat_completeness auto
termination
  by (relation "measure (\<lambda>(pat, v, ps). length ps)") auto

text \<open>
  The rendering as the specification words it (``substitution is textual, not recursive:
  substituted values are not themselves re-scanned for placeholders''): the six substitutions
  of \<open>callGeminiApi\<close>, in its order and with its values, on pieces. It is the yardstick
  for the code, not a part of it.
\<close>

definition render_nonrecursive :: "jsstr \<Rightarrow> jsstr \<Rightarrow> jsstr" where
  "render_nonrecursive promptTemplate userMessage =
     flatten
      (substitute (js ''{{order_status_data}}'') order_status_text
       (substitute (js ''{{order_number}}'') userMessage
        (substitute (js ''{{user_measurements}}'') userMessage
         (substitute (js ''{{size_chart}}'') size_chart_text
          (substitute (js ''{{product_data}}'') product_data_text
           (substitute (js ''{{user_preferences}}'') userMessage (map Raw promptTemplate)))))))"

definition placeholders :: "jsstr list" where
  "placeholders =
     [js ''{{user_preferences}}'', js ''{{product_data}}'', js ''{{size_chart}}'',
      js ''{{user_measurements}}'', js ''{{order_number}}'', js ''{{order_status_data}}'']"

text \<open>
  A text that no replacement can take apart or complete to a placeholder: it has no dollar sign
  and no brace, and it is not a part of a placeholder (so it is not empty).
\<close>

definition plain :: "jsstr \<Rightarrow> bool" where
  "plain m = (0x24 \<notin> set m \<and> 0x7B \<notin> set m \<and> 0x7D \<notin> set m
              \<and> list_all (\<lambda>p. \<not> sublist m p) placeholders)"

text \<open>A value that the pattern can neither reach into nor contain.\<close>

definition inert :: "jsstr \<Rightarrow> jsstr \<Rightarrow> bool" where
  "inert pat x = (hd pat \<notin> set x \<and> last pat \<notin> set x \<and> \<not> sublist x pat)"

text \<open>Somewhere in the pieces the pattern is spelled by characters of the template.\<close>

fun raw_occ :: "jsstr \<Rightarrow> piece list \<Rightarrow> bool" where
  "raw_occ q [] = False"
| "raw_occ q (p # ps) = (raw_prefix q (p # ps) \<or> raw_occ q ps)"

section \<open>Basic facts\<close>

lemmas sample_defs = sample_env_def reply_def answers_def sample_world_def sample_metadata_def
  sample_document_def chat_request_def sample_completion_def empty_parts_completion_def
  online_def offline_def text_update_def

lemmas model_defs = handleChat_def handleChat_try_def handleSavePrompts_def
  handleSavePrompts_try_def fetchPromptsFromGitHub_def callGeminiApi_def
  handleTelegramWebhook_def handleTelegramWebhook_try_def sendTelegramMessage_def
  metadata_request_def content_request_def commit_request_def gemini_request_def
  extract_text_def thenE_def ok_def btoa_def json_response_def text_response_def obj_def
  List.map_filter_def contents_url_def then_io_def lift_def ret_def throw_def request_json_def
  JSON_parse_def do_fetch_def to_str_def

lemma then_io_Inl: "then_io (Inl e, t) f = (Inl e, t)"
  by (simp add: then_io_def)

lemma then_io_Inr: "then_io (Inr a, t) f = (fst (f a), t @ snd (f a))"
  by (simp add: then_io_def split: prod.splits)

lemma then_io_lift_Inl: "then_io (lift (Inl e)) f = (Inl e, [])"
  by (simp add: then_io_def lift_def)

lemma then_io_lift_Inr: "then_io (lift (Inr a)) f = f a"
  by (simp add: then_io_def lift_def split: prod.splits)

lemmas then_io_simps = then_io_Inl then_io_Inr then_io_lift_Inl then_io_lift_Inr

lemma status_json_response: "status (json_response st v) = st"
  by (simp add: json_response_def)

lemma payload_error_response:
  "payload (json_response st (obj [(js ''error'', Some (JStr m))]))
     = Json (JObj [(js ''error'', JStr m)])"
  by (simp add: json_response_def obj_def List.map_filter_def)

lemma status_saved_response: "status saved_response = 200"
  by (simp add: saved_response_def json_response_def)

subsection \<open>The two reads of the document store\<close>

lemma fetchPrompts_cases:
  "fetchPromptsFromGitHub w ow re pa = (res, t) \<Longrightarrow>
     (t = [metadata_request ow re pa] \<and> (\<exists>e. res = Inl e))
     \<or> (\<exists>mr meta sha dl.
           fetch w (metadata_request ow re pa) = Some mr \<and> ok mr
           \<and> parsed (r_body mr) = Some meta
           \<and> get (Some meta) (js ''sha'') = Inr sha
           \<and> get (Some meta) (js ''download_url'') = Inr dl
           \<and> t = [metadata_request ow re pa, content_request dl]
           \<and> (case res of
                 Inl e \<Rightarrow> True
               | Inr (content, sha') \<Rightarrow>
                   sha' = sha
                   \<and> (\<exists>cr. fetch w (content_request dl) = Some cr \<and> ok cr \<and> content = r_body cr)))"
  unfolding fetchPromptsFromGitHub_def then_io_def lift_def ret_def throw_def JSON_parse_def
    do_fetch_def
  by (auto split: option.splits sum.splits if_splits prod.splits)

lemma fetchPrompts_only_reads:
  assumes "fetchPromptsFromGitHub w ow re pa = (res, t)"
  shows "list_all (\<lambda>rq. f_method rq = GET) t"
  using fetchPrompts_cases [OF assms]
  by (auto simp: metadata_request_def content_request_def)

lemma not_put_in_reads:
  "list_all (\<lambda>rq. f_method rq = GET) t \<Longrightarrow> rq \<in> set t \<Longrightarrow> f_method rq = PUT \<Longrightarrow> False"
  by (auto simp: list_all_iff)

subsection \<open>The lookup of the prompt\<close>

lemma find_prompt_none:
  "\<forall>p \<in> set ps. \<exists>pid. get (Some p) (js ''id'') = Inr pid \<and> pid \<noteq> f \<Longrightarrow>
     find_prompt ps f = Inr None"
  by (induction ps) (auto simp: thenE_def strict_eq_def)

subsection \<open>The commit\<close>

lemma get_obj_sha:
  "get (Some (obj [(js ''message'', Some a), (js ''content'', Some b), (js ''sha'', sha)]))
     (js ''sha'') = Inr sha"
  by (cases sha) (simp_all add: obj_def List.map_filter_def js_def)

lemma commit_request_simps:
  "f_method (commit_request env enc sha) = PUT"
  "get (f_body (commit_request env enc sha)) (js ''sha'') = Inr sha"
  by (simp_all add: commit_request_def get_obj_sha)

lemma save_try_shape:
  assumes "handleSavePrompts_try w request env = (res, t)"
  shows "(\<exists>e. res = Inl e \<and> list_all (\<lambda>rq. f_method rq = GET) t)
       \<or> (\<exists>content sha t0 enc.
            fetchPromptsFromGitHub w (GITHUB_OWNER env) (GITHUB_REPO env) (PROMPTS_PATH env)
              = (Inr (content, sha), t0)
            \<and> t = t0 @ [commit_request env enc sha]
            \<and> (case fetch w (commit_request env enc sha) of
                  None \<Rightarrow> res = Inl (Native NetworkError)
                | Some r \<Rightarrow>
                    if ok r then res = Inr saved_response
                    else res = Inl (Error (js ''Failed to commit to GitHub: '' @ dec (r_status r)
                                           @ js '' - '' @ raw (r_body r)))))"
proof (cases "json_body request")
  case None
  then show ?thesis
    using assms by (auto simp add: handleSavePrompts_try_def request_json_def then_io_simps)
next
  case (Some newPromptsJson)
  obtain r0 t0 where f: "fetchPromptsFromGitHub w (GITHUB_OWNER env) (GITHUB_REPO env) (PROMPTS_PATH env) = (r0, t0)"
    by (cases "fetchPromptsFromGitHub w (GITHUB_OWNER env) (GITHUB_REPO env) (PROMPTS_PATH env)")
  have reads: "list_all (\<lambda>rq. f_method rq = GET) t0"
    using fetchPrompts_only_reads [OF f] .
  show ?thesis
  proof (cases r0)
    case (Inl e)
    then show ?thesis
      using assms Some f reads
      by (auto simp add: handleSavePrompts_try_def request_json_def then_io_simps)
  next
    case (Inr cs)
    obtain content sha where cs: "cs = (content, sha)" by (cases cs)
    show ?thesis
    proof (cases "btoa w (stringify_indent4 w newPromptsJson)")
      case (Inl e)
      then show ?thesis
        using assms Some f reads Inr cs
        by (auto simp add: handleSavePrompts_try_def request_json_def then_io_simps)
    next
      case enc: (Inr enc)
      show ?thesis
      proof (cases "fetch w (commit_request env enc sha)")
        case None
        then show ?thesis
          using assms Some f Inr cs enc
          by (auto simp add: handleSavePrompts_try_def request_json_def then_io_simps do_fetch_def)
      next
        case (Some r)
        then show ?thesis
          using assms \<open>json_body request = Some newPromptsJson\<close> f Inr cs enc
          by (auto simp add: handleSavePrompts_try_def request_json_def then_io_simps do_fetch_def
                saved_response_def ret_def throw_def)
      qed
    qed
  qed
qed

lemma handleSavePrompts_unfold:
  "configured (GITHUB_PAT env) \<Longrightarrow> handleSavePrompts_try w request env = (res, t) \<Longrightarrow>
     handleSavePrompts w request env =
       (case res of Inr r \<Rightarrow> (r, t)
        | Inl error \<Rightarrow> (json_response 500
                (obj [(js ''error'',
                   Some (JStr (js ''Internal Server Error during prompt saving: ''
                               @ message_of w error)))]), t))"
  by (simp add: handleSavePrompts_def split: sum.splits)

section \<open>The placeholders: replacement text with a dollar sign\<close>

text \<open>
  Claim C1. Every occurrence of a recognised placeholder is to be replaced by its mapped value,
  which for \<open>{{user_preferences}}\<close> is the user message. The code hands the user message
  to \<open>replace\<close> as a replacement pattern, in which a dollar sign is special: for the
  message \<open>$$\<close> the placeholder is replaced by a single \<open>$\<close>, not by the message.
\<close>

theorem finalPrompt_dollar_message:
  "finalPrompt (js ''Wishes: {{user_preferences}}'') (js ''$$'') = js ''Wishes: $''"
  by (simp add: finalPrompt_def replace_g_def js_def)

subsection \<open>The chained replacements against the substitution on pieces\<close>

lemma getSubstitution_plain:
  "0x24 \<notin> set rep \<Longrightarrow> getSubstitution m b a rep = rep"
  by (induction m b a rep rule: getSubstitution.induct) auto

lemma replaceAll_through_value:
  "pat \<noteq> [] \<Longrightarrow> hd pat \<notin> set x \<Longrightarrow>
     replaceAll pat rep seen (x @ s) = x @ replaceAll pat rep (seen @ x) s"
proof (induction x arbitrary: seen)
  case Nil
  then show ?case by simp
next
  case (Cons c x)
  have "\<not> prefix pat (c # x @ s)"
    using Cons.prems by (cases pat) auto
  then show ?case
    using Cons by simp
qed

lemma prefix_flatten_raw:
  assumes "prefix q (flatten ps)"
    and "\<forall>x. Val x \<in> set ps \<longrightarrow> (q \<noteq> [] \<longrightarrow> last q \<notin> set x) \<and> \<not> sublist x q"
  shows "raw_prefix q ps"
  using assms
proof (induction ps arbitrary: q)
  case Nil
  then show ?case by simp
next
  case (Cons p ps)
  show ?case
  proof (cases q)
    case Nil
    then show ?thesis by simp
  next
    case q: (Cons c q')
    show ?thesis
    proof (cases p)
      case (Raw d)
      have eq: "c = d" and pre: "prefix q' (flatten ps)"
        using Cons.prems(1) q Raw by simp_all
      have "\<forall>x. Val x \<in> set ps \<longrightarrow> (q' \<noteq> [] \<longrightarrow> last q' \<notin> set x) \<and> \<not> sublist x q'"
        using Cons.prems(2) q by (auto simp: sublist_Cons_right)
      from Cons.IH [OF pre this] show ?thesis
        using q Raw eq by simp
    next
      case (Val x)
      have inert: "last q \<notin> set x" "\<not> sublist x q"
        using Cons.prems(2) q Val by auto
      have "prefix q (x @ flatten ps)"
        using Cons.prems(1) Val by simp
      then have "prefix q x \<or> (\<exists>us. q = x @ us \<and> prefix us (flatten ps))"
        by (simp add: prefix_append)
      then have False
      proof
        assume "prefix q x"
        then have "set q \<subseteq> set x" by (rule set_mono_prefix)
        moreover have "last q \<in> set q" using q by simp
        ultimately show False using inert(1) by auto
      next
        assume "\<exists>us. q = x @ us \<and> prefix us (flatten ps)"
        then show False using inert(2) by auto
      qed
      then show ?thesis ..
    qed
  qed
qed

lemma raw_prefix_flatten:
  "raw_prefix q ps \<Longrightarrow>
     prefix q (flatten ps) \<and> drop (length q) (flatten ps) = flatten (drop (length q) ps)"
  by (induction q ps rule: raw_prefix.induct) auto

lemma inert_tail:
  assumes "\<forall>x. Val x \<in> set ps \<longrightarrow> inert pat x"
  shows "\<forall>x. Val x \<in> set ps \<longrightarrow> (pat \<noteq> [] \<longrightarrow> last pat \<notin> set x) \<and> \<not> sublist x pat"
  using assms by (auto simp: inert_def)

lemma flatten_substitute:
  assumes "pat \<noteq> []" and "0x24 \<notin> set rep"
    and "\<forall>x. Val x \<in> set ps \<longrightarrow> inert pat x"
  shows "replaceAll pat rep seen (flatten ps) = flatten (substitute pat rep ps)"
  using assms
proof (induction pat rep ps arbitrary: seen rule: substitute.induct)
  case (1 pat v)
  then show ?case by simp
next
  case (2 pat v x ps)
  have "hd pat \<notin> set x" using 2 by (simp add: inert_def)
  then show ?case
    using 2 by (simp add: replaceAll_through_value)
next
  case (3 pat v c ps)
  show ?case
  proof (cases "raw_prefix pat (Raw c # ps)")
    case True
    obtain q where pat: "pat = c # q" and rq: "raw_prefix q ps"
      using True 3(3) by (cases pat) auto
    have pre: "prefix pat (c # flatten ps)"
      using raw_prefix_flatten [OF True] by simp
    have dr: "drop (length pat - 1) (flatten ps) = flatten (drop (length pat - 1) ps)"
      using raw_prefix_flatten [OF rq] pat by simp
    have "\<forall>x. Val x \<in> set (drop (length pat - 1) ps) \<longrightarrow> inert pat x"
      using 3(5) by (auto dest: in_set_dropD)
    from 3(1) [OF _ 3(3) 3(4) this] True 3(3)
    have "replaceAll pat v (seen @ pat) (flatten (drop (length pat - 1) ps))
            = flatten (substitute pat v (drop (length pat - 1) ps))"
      by simp
    then show ?thesis
      using True pre dr 3(3) 3(4) by (simp add: getSubstitution_plain)
  next
    case False
    have "\<not> prefix pat (c # flatten ps)"
    proof
      assume "prefix pat (c # flatten ps)"
      then have "prefix pat (flatten (Raw c # ps))" by simp
      from prefix_flatten_raw [OF this inert_tail] 3(5) False show False by simp
    qed
    moreover have "\<forall>x. Val x \<in> set ps \<longrightarrow> inert pat x"
      using 3(5) by simp
    ultimately show ?thesis
      using False 3(2) [OF _ 3(3) 3(4)] by simp
  qed
qed

lemma flatten_map_Raw: "flatten (map Raw s) = s"
  by (induction s) simp_all

lemma Val_substitute:
  "Val x \<in> set (substitute pat v ps) \<Longrightarrow> x = v \<or> Val x \<in> set ps"
  by (induction pat v ps rule: substitute.induct) (auto split: if_splits dest: in_set_dropD)

lemma replaceAll_absent:
  "\<not> sublist pat s \<Longrightarrow> replaceAll pat rep seen s = s"
proof (induction s arbitrary: seen)
  case Nil
  then show ?case by simp
next
  case (Cons c s)
  then have "\<not> prefix pat (c # s)" and "\<not> sublist pat s"
    by (auto simp: sublist_Cons_right)
  then show ?case using Cons.IH by simp
qed

lemma sublist_skip_value:
  "q \<noteq> [] \<Longrightarrow> hd q \<notin> set x \<Longrightarrow> sublist q (x @ s) \<Longrightarrow> sublist q s"
proof (induction x)
  case Nil
  then show ?case by simp
next
  case (Cons c x)
  have "\<not> prefix q (c # x @ s)"
    using Cons.prems by (cases q) auto
  then show ?case
    using Cons by (simp add: sublist_Cons_right)
qed

lemma sublist_flatten_raw_occ:
  assumes "q \<noteq> []" and "\<forall>x. Val x \<in> set ps \<longrightarrow> inert q x" and "sublist q (flatten ps)"
  shows "raw_occ q ps"
  using assms
proof (induction ps)
  case Nil
  then show ?case by simp
next
  case (Cons p ps)
  have rest: "\<forall>x. Val x \<in> set ps \<longrightarrow> inert q x"
    using Cons.prems(2) by simp
  show ?case
  proof (cases p)
    case (Raw d)
    have "prefix q (flatten (Raw d # ps)) \<or> sublist q (flatten ps)"
      using Cons.prems(3) Raw by (simp add: sublist_Cons_right)
    then show ?thesis
    proof
      assume "prefix q (flatten (Raw d # ps))"
      from prefix_flatten_raw [OF this inert_tail] Cons.prems(2) Raw
      show ?thesis by simp
    next
      assume "sublist q (flatten ps)"
      from Cons.IH [OF Cons.prems(1) rest this] show ?thesis by simp
    qed
  next
    case (Val x)
    have "hd q \<notin> set x"
      using Cons.prems(2) Val by (simp add: inert_def)
    from sublist_skip_value [OF Cons.prems(1) this] Cons.prems(3) Val
    have "sublist q (flatten ps)" by simp
    from Cons.IH [OF Cons.prems(1) rest this] show ?thesis by simp
  qed
qed

lemma raw_prefix_substitute:
  "raw_prefix q (substitute pat v ps) \<Longrightarrow> raw_prefix q ps"
proof (induction pat v ps arbitrary: q rule: substitute.induct)
  case (1 pat v)
  then show ?case by simp
next
  case (2 pat v x ps)
  then show ?case by (cases q) simp_all
next
  case (3 pat v c ps)
  show ?case
  proof (cases q)
    case Nil
    then show ?thesis by simp
  next
    case (Cons d q')
    show ?thesis
    proof (cases "pat \<noteq> [] \<and> raw_prefix pat (Raw c # ps)")
      case True
      then have "substitute pat v (Raw c # ps)
                   = Val v # substitute pat v (drop (length pat - 1) ps)"
        by simp
      then show ?thesis using 3(3) Cons by simp
    next
      case False
      then have "substitute pat v (Raw c # ps) = Raw c # substitute pat v ps"
        by auto
      then have "d = c \<and> raw_prefix q' (substitute pat v ps)"
        using 3(3) Cons by simp
      then show ?thesis
        using 3(2) [OF False] Cons by simp
    qed
  qed
qed

lemma raw_occ_drop: "raw_occ q (drop n ps) \<Longrightarrow> raw_occ q ps"
proof (induction ps arbitrary: n)
  case Nil
  then show ?case by simp
next
  case (Cons p ps)
  then show ?case by (cases n) auto
qed

lemma raw_occ_substitute:
  "q \<noteq> [] \<Longrightarrow> raw_occ q (substitute pat v ps) \<Longrightarrow> raw_occ q ps"
proof (induction pat v ps rule: substitute.induct)
  case (1 pat v)
  then show ?case by simp
next
  case (2 pat v x ps)
  then show ?case by (cases q) auto
next
  case (3 pat v c ps)
  show ?case
  proof (cases "pat \<noteq> [] \<and> raw_prefix pat (Raw c # ps)")
    case True
    then have "substitute pat v (Raw c # ps)
                 = Val v # substitute pat v (drop (length pat - 1) ps)"
      by simp
    then have "raw_occ q (substitute pat v (drop (length pat - 1) ps))"
      using 3(3,4) by (cases q) auto
    from 3(1) [OF True 3(3) this] have "raw_occ q ps" by (rule raw_occ_drop)
    then show ?thesis by simp
  next
    case False
    then have "substitute pat v (Raw c # ps) = Raw c # substitute pat v ps"
      by auto
    then have "raw_prefix q (Raw c # substitute pat v ps) \<or> raw_occ q (substitute pat v ps)"
      using 3(4) by simp
    then show ?thesis
    proof
      assume "raw_prefix q (Raw c # substitute pat v ps)"
      then have "raw_prefix q (Raw c # ps)"
        using raw_prefix_substitute by (cases q) auto
      then show ?thesis by simp
    next
      assume "raw_occ q (substitute pat v ps)"
      from 3(2) [OF False 3(3) this] show ?thesis by simp
    qed
  qed
qed

lemma no_raw_occ_after:
  "pat \<noteq> [] \<Longrightarrow> \<not> raw_occ pat (substitute pat v ps)"
proof (induction pat v ps rule: substitute.induct)
  case (1 pat v)
  then show ?case by simp
next
  case (2 pat v x ps)
  then show ?case by (cases pat) auto
next
  case (3 pat v c ps)
  show ?case
  proof (cases "pat \<noteq> [] \<and> raw_prefix pat (Raw c # ps)")
    case True
    then have "substitute pat v (Raw c # ps)
                 = Val v # substitute pat v (drop (length pat - 1) ps)"
      by simp
    then show ?thesis
      using 3(1) [OF True 3(3)] by (cases pat) auto
  next
    case False
    then have S: "substitute pat v (Raw c # ps) = Raw c # substitute pat v ps"
      by auto
    have "\<not> raw_prefix pat (Raw c # substitute pat v ps)"
    proof
      assume "raw_prefix pat (Raw c # substitute pat v ps)"
      then have "raw_prefix pat (Raw c # ps)"
        using raw_prefix_substitute by (cases pat) auto
      then show False using False 3(3) by simp
    qed
    then show ?thesis
      using 3(2) [OF False 3(3)] by (simp only: S raw_occ.simps) simp
  qed
qed

lemma placeholder_shape:
  "P \<in> set placeholders \<Longrightarrow> P \<noteq> [] \<and> hd P = 0x7B \<and> last P = 0x7D"
  by (auto simp: placeholders_def js_def)

lemma plain_inert: "plain x \<Longrightarrow> P \<in> set placeholders \<Longrightarrow> inert P x"
  using placeholder_shape [of P] by (auto simp: plain_def inert_def list_all_iff)

lemma plain_texts:
  "plain product_data_text" "plain size_chart_text" "plain order_status_text"
  by (simp_all add: plain_def placeholders_def product_data_text_def size_chart_text_def
        order_status_text_def js_def sublist_Cons_right)

lemma pass_opaque:
  assumes "P \<in> set placeholders" and "plain rep" and "\<forall>x. Val x \<in> set ps \<longrightarrow> plain x"
  shows "replace_g P rep (flatten ps) = flatten (substitute P rep ps)"
    and "\<forall>x. Val x \<in> set (substitute P rep ps) \<longrightarrow> plain x"
proof -
  have "P \<noteq> []" using placeholder_shape [OF assms(1)] by simp
  moreover have "0x24 \<notin> set rep" using assms(2) by (simp add: plain_def)
  moreover have "\<forall>x. Val x \<in> set ps \<longrightarrow> inert P x"
    using assms(1,3) plain_inert by blast
  ultimately show "replace_g P rep (flatten ps) = flatten (substitute P rep ps)"
    unfolding replace_g_def by (rule flatten_substitute)
  show "\<forall>x. Val x \<in> set (substitute P rep ps) \<longrightarrow> plain x"
    using assms(2,3) Val_substitute by blast
qed

lemma pass_absent:
  assumes "P \<in> set placeholders" and "\<forall>x. Val x \<in> set ps \<longrightarrow> plain x" and "\<not> raw_occ P ps"
  shows "\<not> sublist P (flatten ps)"
proof
  assume "sublist P (flatten ps)"
  moreover have "P \<noteq> []" using placeholder_shape [OF assms(1)] by simp
  moreover have "\<forall>x. Val x \<in> set ps \<longrightarrow> inert P x"
    using assms(1,2) plain_inert by blast
  ultimately have "raw_occ P ps" by (simp add: sublist_flatten_raw_occ)
  then show False using assms(3) by simp
qed

lemma keeps_absent:
  "P \<in> set placeholders \<Longrightarrow> \<not> raw_occ P ps \<Longrightarrow> \<not> raw_occ P (substitute Q v ps)"
  using placeholder_shape [of P] raw_occ_substitute by blast

lemma kills:
  "P \<in> set placeholders \<Longrightarrow> \<not> raw_occ P (substitute P v ps)"
  using placeholder_shape [of P] no_raw_occ_after by blast

lemma in_placeholders:
  "js ''{{user_preferences}}'' \<in> set placeholders"
  "js ''{{product_data}}'' \<in> set placeholders"
  "js ''{{size_chart}}'' \<in> set placeholders"
  "js ''{{user_measurements}}'' \<in> set placeholders"
  "js ''{{order_number}}'' \<in> set placeholders"
  "js ''{{order_status_data}}'' \<in> set placeholders"
  by (simp_all add: placeholders_def)

text \<open>
  Claim C2, as the code has it. The six replacements are chained: each one scans the whole
  result of the one before, the values put in by it included, so the substitution is recursive
  across the chain and a second rendering can change the text again. For a user message that
  contains no dollar sign and no brace and is not a part of a recognised placeholder, no value
  put in is ever touched by a later replacement (the rendering is the substitution on pieces of
  the specification), and rendering a second time with the same message gives the same text as
  rendering once.
\<close>

theorem finalPrompt_plain_message:
  assumes "plain userMessage"
  shows "finalPrompt promptTemplate userMessage = render_nonrecursive promptTemplate userMessage
         \<and> finalPrompt (finalPrompt promptTemplate userMessage) userMessage
             = finalPrompt promptTemplate userMessage"
proof -
  let ?m = userMessage
  let ?s0 = "map Raw promptTemplate"
  let ?s1 = "substitute (js ''{{user_preferences}}'') ?m ?s0"
  let ?s2 = "substitute (js ''{{product_data}}'') product_data_text ?s1"
  let ?s3 = "substitute (js ''{{size_chart}}'') size_chart_text ?s2"
  let ?s4 = "substitute (js ''{{user_measurements}}'') ?m ?s3"
  let ?s5 = "substitute (js ''{{order_number}}'') ?m ?s4"
  let ?s6 = "substitute (js ''{{order_status_data}}'') order_status_text ?s5"
  have v0: "\<forall>x. Val x \<in> set ?s0 \<longrightarrow> plain x" by auto
  note p1 = pass_opaque [OF in_placeholders(1) assms v0]
  note p2 = pass_opaque [OF in_placeholders(2) plain_texts(1) p1(2)]
  note p3 = pass_opaque [OF in_placeholders(3) plain_texts(2) p2(2)]
  note p4 = pass_opaque [OF in_placeholders(4) assms p3(2)]
  note p5 = pass_opaque [OF in_placeholders(5) assms p4(2)]
  note p6 = pass_opaque [OF in_placeholders(6) plain_texts(3) p5(2)]
  have once: "finalPrompt promptTemplate ?m = flatten ?s6"
    unfolding finalPrompt_def
    using p1(1) p2(1) p3(1) p4(1) p5(1) p6(1) by (simp add: flatten_map_Raw)
  have a1: "\<not> raw_occ (js ''{{user_preferences}}'') ?s6"
    by (intro keeps_absent kills in_placeholders)
  have a2: "\<not> raw_occ (js ''{{product_data}}'') ?s6"
    by (intro keeps_absent kills in_placeholders)
  have a3: "\<not> raw_occ (js ''{{size_chart}}'') ?s6"
    by (intro keeps_absent kills in_placeholders)
  have a4: "\<not> raw_occ (js ''{{user_measurements}}'') ?s6"
    by (intro keeps_absent kills in_placeholders)
  have a5: "\<not> raw_occ (js ''{{order_number}}'') ?s6"
    by (intro keeps_absent kills in_placeholders)
  have a6: "\<not> raw_occ (js ''{{order_status_data}}'') ?s6"
    by (intro keeps_absent kills in_placeholders)
  note n1 = pass_absent [OF in_placeholders(1) p6(2) a1]
  note n2 = pass_absent [OF in_placeholders(2) p6(2) a2]
  note n3 = pass_absent [OF in_placeholders(3) p6(2) a3]
  note n4 = pass_absent [OF in_placeholders(4) p6(2) a4]
  note n5 = pass_absent [OF in_placeholders(5) p6(2) a5]
  note n6 = pass_absent [OF in_placeholders(6) p6(2) a6]
  have twice: "finalPrompt (flatten ?s6) ?m = flatten ?s6"
    unfolding finalPrompt_def replace_g_def
    using n1 n2 n3 n4 n5 n6 by (simp add: replaceAll_absent)
  show ?thesis
    using once twice by (simp add: render_nonrecursive_def)
qed

theorem finalPrompt_plain_message_witness:
  "plain (js ''red shoes'')
   \<and> finalPrompt (js ''Look: {{user_preferences}}, {{size_chart}}'') (js ''red shoes'')
       = render_nonrecursive (js ''Look: {{user_preferences}}, {{size_chart}}'') (js ''red shoes'')
   \<and> finalPrompt (finalPrompt (js ''Look: {{user_preferences}}, {{size_chart}}'') (js ''red shoes''))
         (js ''red shoes'')
       = finalPrompt (js ''Look: {{user_preferences}}, {{size_chart}}'') (js ''red shoes'')"
proof -
  have p: "plain (js ''red shoes'')"
    by (simp add: plain_def placeholders_def js_def sublist_Cons_right)
  from p finalPrompt_plain_message
         [OF p, where promptTemplate = "js ''Look: {{user_preferences}}, {{size_chart}}''"]
  show ?thesis by (rule conjI)
qed

text \<open>
  Claim C2 as stated fails for a message that is itself a placeholder. The value put in for
  \<open>{{user_preferences}}\<close> is scanned by the replacement of \<open>{{size_chart}}\<close> and replaced,
  where the substitution that does not scan values leaves it; and the rendering of
  \<open>{{order_number}}\<close> changes again when it is rendered a second time.
\<close>

theorem finalPrompt_rescans_counterexample:
  "finalPrompt (js ''{{user_preferences}}'') (js ''{{size_chart}}'') = size_chart_text
   \<and> render_nonrecursive (js ''{{user_preferences}}'') (js ''{{size_chart}}'') = js ''{{size_chart}}''
   \<and> finalPrompt (js ''{{order_number}}'') (js ''{{size_chart}}'') = js ''{{size_chart}}''
   \<and> finalPrompt (finalPrompt (js ''{{order_number}}'') (js ''{{size_chart}}'')) (js ''{{size_chart}}'')
       \<noteq> finalPrompt (js ''{{order_number}}'') (js ''{{size_chart}}'')"
  by (simp add: finalPrompt_def render_nonrecursive_def replace_g_def js_def size_chart_text_def)

text \<open>
  A message without braces that is a part of a placeholder can complete one: the value
  \<open>chart\<close> put in by the first replacement is taken away again by the third.
\<close>

lemma finalPrompt_completes_placeholder:
  "finalPrompt (js ''{{size_{{user_preferences}}}}'') (js ''chart'') = size_chart_text
   \<and> render_nonrecursive (js ''{{size_{{user_preferences}}}}'') (js ''chart'') = js ''{{size_chart}}''"
  by (simp add: finalPrompt_def render_nonrecursive_def replace_g_def js_def size_chart_text_def)

subsection \<open>Templates without a recognised placeholder\<close>

text \<open>
  A template in which none of the six placeholders occurs is rendered unchanged, whatever the
  user message; so is the greeting of the specification's end-to-end scenario, whose only
  token \<open>{{name}}\<close> is not among the six.
\<close>

lemma finalPrompt_absent:
  assumes "list_all (\<lambda>p. \<not> sublist p promptTemplate) placeholders"
  shows "finalPrompt promptTemplate userMessage = promptTemplate"
  using assms
  by (simp add: finalPrompt_def replace_g_def placeholders_def replaceAll_absent)

lemma finalPrompt_greeting:
  "finalPrompt (js ''Hello {{name}}'') (js ''World'') = js ''Hello {{name}}''"
  by (simp add: finalPrompt_def replace_g_def js_def)

section \<open>The save handler\<close>

text \<open>
  Claim C3. Whenever \<open>handleSavePrompts\<close> issues the conditional write (a PUT), the requests
  of the invocation are exactly the metadata read, the content read and that PUT, in this order,
  and the \<open>sha\<close> in the body of the PUT is the \<open>sha\<close> of the metadata that the read of
  this invocation returned. The handler has no other source for it: it takes no state from an
  earlier call, and nothing of the inbound request reaches the \<open>sha\<close> member.
\<close>

theorem handleSavePrompts_fresh_token:
  assumes "commit \<in> set (snd (handleSavePrompts w request env))"
    and "f_method commit = PUT"
  shows "\<exists>metadataResponse metadata sha download_url.
           fetch w (metadata_request (GITHUB_OWNER env) (GITHUB_REPO env) (PROMPTS_PATH env))
             = Some metadataResponse
           \<and> parsed (r_body metadataResponse) = Some metadata
           \<and> get (Some metadata) (js ''sha'') = Inr sha
           \<and> get (Some metadata) (js ''download_url'') = Inr download_url
           \<and> snd (handleSavePrompts w request env)
               = [metadata_request (GITHUB_OWNER env) (GITHUB_REPO env) (PROMPTS_PATH env),
                  content_request download_url, commit]
           \<and> get (f_body commit) (js ''sha'') = Inr sha"
proof -
  have conf: "configured (GITHUB_PAT env)"
    using assms(1) by (cases "configured (GITHUB_PAT env)") (simp_all add: handleSavePrompts_def)
  obtain res t where body: "handleSavePrompts_try w request env = (res, t)"
    by (cases "handleSavePrompts_try w request env")
  have trace: "snd (handleSavePrompts w request env) = t"
    using handleSavePrompts_unfold [OF conf body] by (simp split: sum.splits)
  from save_try_shape [OF body] show ?thesis
  proof
    assume "\<exists>e. res = Inl e \<and> list_all (\<lambda>rq. f_method rq = GET) t"
    then have False
      using not_put_in_reads assms trace by auto
    then show ?thesis ..
  next
    assume "\<exists>content sha t0 enc.
            fetchPromptsFromGitHub w (GITHUB_OWNER env) (GITHUB_REPO env) (PROMPTS_PATH env)
              = (Inr (content, sha), t0)
            \<and> t = t0 @ [commit_request env enc sha]
            \<and> (case fetch w (commit_request env enc sha) of
                  None \<Rightarrow> res = Inl (Native NetworkError)
                | Some r \<Rightarrow>
                    if ok r then res = Inr saved_response
                    else res = Inl (Error (js ''Failed to commit to GitHub: '' @ dec (r_status r)
                                           @ js '' - '' @ raw (r_body r))))"
    then obtain content sha t0 enc where
      f: "fetchPromptsFromGitHub w (GITHUB_OWNER env) (GITHUB_REPO env) (PROMPTS_PATH env)
              = (Inr (content, sha), t0)"
      and t: "t = t0 @ [commit_request env enc sha]"
      by blast
    have reads: "list_all (\<lambda>rq. f_method rq = GET) t0"
      using fetchPrompts_only_reads [OF f] .
    have c: "commit = commit_request env enc sha"
      using assms trace t not_put_in_reads [OF reads] by auto
    from fetchPrompts_cases [OF f] obtain mr meta sha0 dl where
      "fetch w (metadata_request (GITHUB_OWNER env) (GITHUB_REPO env) (PROMPTS_PATH env)) = Some mr"
      "parsed (r_body mr) = Some meta"
      "get (Some meta) (js ''sha'') = Inr sha0"
      "get (Some meta) (js ''download_url'') = Inr dl"
      "t0 = [metadata_request (GITHUB_OWNER env) (GITHUB_REPO env) (PROMPTS_PATH env), content_request dl]"
      "sha = sha0"
      by auto
    then show ?thesis
      using trace t c by (auto simp: commit_request_simps)
  qed
qed

theorem handleSavePrompts_fresh_token_witness:
  "commit_request sample_env (js ''W10='') (Some (JStr (js ''T1'')))
     \<in> set (snd (handleSavePrompts (online (reply 200 ''OK'' ''{}'' None))
                   \<lparr>json_body = Some (JArr [])\<rparr> sample_env))
   \<and> (\<exists>metadataResponse metadata sha download_url.
         fetch (online (reply 200 ''OK'' ''{}'' None))
           (metadata_request (GITHUB_OWNER sample_env) (GITHUB_REPO sample_env)
              (PROMPTS_PATH sample_env)) = Some metadataResponse
         \<and> parsed (r_body metadataResponse) = Some metadata
         \<and> get (Some metadata) (js ''sha'') = Inr sha
         \<and> get (Some metadata) (js ''download_url'') = Inr download_url
         \<and> snd (handleSavePrompts (online (reply 200 ''OK'' ''{}'' None))
                  \<lparr>json_body = Some (JArr [])\<rparr> sample_env)
             = [metadata_request (GITHUB_OWNER sample_env) (GITHUB_REPO sample_env)
                  (PROMPTS_PATH sample_env),
                content_request download_url,
                commit_request sample_env (js ''W10='') (Some (JStr (js ''T1'')))]
         \<and> get (f_body (commit_request sample_env (js ''W10='') (Some (JStr (js ''T1'')))))
               (js ''sha'') = Inr sha)"
proof -
  have issued: "commit_request sample_env (js ''W10='') (Some (JStr (js ''T1'')))
     \<in> set (snd (handleSavePrompts (online (reply 200 ''OK'' ''{}'' None))
                   \<lparr>json_body = Some (JArr [])\<rparr> sample_env))"
    by (simp add: model_defs sample_defs js_def)
  have put: "f_method (commit_request sample_env (js ''W10='') (Some (JStr (js ''T1'')))) = PUT"
    by (simp add: commit_request_def)
  from issued handleSavePrompts_fresh_token [OF issued put] show ?thesis ..
qed

text \<open>
  Claim C9. \<open>handleSavePrompts\<close> answers 200 with the success message exactly when the
  conditional write was accepted by the store, and 500 with an error body otherwise. Without the
  write credential the answer is the configuration error and no request is made. When the store
  answers the commit with a non-success status, the error text ends with that status and the
  body of the answer, verbatim.
\<close>

theorem handleSavePrompts_outcome:
  "case handleSavePrompts w request env of
     (resp, t) \<Rightarrow>
       (status resp = 200 \<longleftrightarrow> write_accepted w t)
       \<and> (write_accepted w t \<longrightarrow> resp = saved_response)
       \<and> (\<not> write_accepted w t \<longrightarrow>
            status resp = 500 \<and> (\<exists>m. payload resp = Json (JObj [(js ''error'', JStr m)])))
       \<and> (\<not> configured (GITHUB_PAT env) \<longrightarrow>
            resp = json_response 500
                     (obj [(js ''error'', Some (JStr (js ''GITHUB_PAT secret is not configured.'')))])
            \<and> t = [])
       \<and> (\<forall>rq r. rq \<in> set t \<and> f_method rq = PUT \<and> fetch w rq = Some r \<and> \<not> ok r \<longrightarrow>
            resp = json_response 500
                     (obj [(js ''error'',
                        Some (JStr (js ''Internal Server Error during prompt saving: ''
                          @ js ''Failed to commit to GitHub: '' @ dec (r_status r) @ js '' - ''
                          @ raw (r_body r))))]))"
proof (cases "configured (GITHUB_PAT env)")
  case False
  then show ?thesis
    by (simp add: handleSavePrompts_def write_accepted_def status_json_response
          payload_error_response)
next
  case True
  obtain res t where body: "handleSavePrompts_try w request env = (res, t)"
    by (cases "handleSavePrompts_try w request env")
  note unf = handleSavePrompts_unfold [OF True body]
  from save_try_shape [OF body] show ?thesis
  proof
    assume "\<exists>e. res = Inl e \<and> list_all (\<lambda>rq. f_method rq = GET) t"
    then obtain e where e: "res = Inl e" and reads: "list_all (\<lambda>rq. f_method rq = GET) t"
      by blast
    have nacc: "\<not> write_accepted w t"
      using reads by (auto simp: write_accepted_def list_ex_iff list_all_iff)
    have noput: "\<forall>rq. rq \<in> set t \<longrightarrow> f_method rq \<noteq> PUT"
      using reads by (auto simp: list_all_iff)
    have H: "handleSavePrompts w request env =
               (json_response 500 (obj [(js ''error'',
                   Some (JStr (js ''Internal Server Error during prompt saving: ''
                               @ message_of w e)))]), t)"
      using unf e by simp
    have last: "\<forall>rq r. rq \<in> set t \<and> f_method rq = PUT \<and> fetch w rq = Some r \<and> \<not> ok r \<longrightarrow>
            (json_response 500 (obj [(js ''error'',
                   Some (JStr (js ''Internal Server Error during prompt saving: ''
                               @ message_of w e)))])) = json_response 500
                     (obj [(js ''error'',
                        Some (JStr (js ''Internal Server Error during prompt saving: ''
                          @ js ''Failed to commit to GitHub: '' @ dec (r_status r) @ js '' - ''
                          @ raw (r_body r))))])"
          using noput by auto
    show ?thesis
      unfolding H using nacc True last
      by (simp add: status_json_response payload_error_response)
  next
    assume "\<exists>content sha t0 enc.
            fetchPromptsFromGitHub w (GITHUB_OWNER env) (GITHUB_REPO env) (PROMPTS_PATH env)
              = (Inr (content, sha), t0)
            \<and> t = t0 @ [commit_request env enc sha]
            \<and> (case fetch w (commit_request env enc sha) of
                  None \<Rightarrow> res = Inl (Native NetworkError)
                | Some r \<Rightarrow>
                    if ok r then res = Inr saved_response
                    else res = Inl (Error (js ''Failed to commit to GitHub: '' @ dec (r_status r)
                                           @ js '' - '' @ raw (r_body r))))"
    then obtain content sha t0 enc where
      f: "fetchPromptsFromGitHub w (GITHUB_OWNER env) (GITHUB_REPO env) (PROMPTS_PATH env)
              = (Inr (content, sha), t0)"
      and t: "t = t0 @ [commit_request env enc sha]"
      and r: "case fetch w (commit_request env enc sha) of
                  None \<Rightarrow> res = Inl (Native NetworkError)
                | Some r \<Rightarrow>
                    if ok r then res = Inr saved_response
                    else res = Inl (Error (js ''Failed to commit to GitHub: '' @ dec (r_status r)
                                           @ js '' - '' @ raw (r_body r)))"
      by blast
    have reads: "list_all (\<lambda>rq. f_method rq = GET) t0"
      using fetchPrompts_only_reads [OF f] .
    have acc: "write_accepted w t \<longleftrightarrow>
                 (case fetch w (commit_request env enc sha) of None \<Rightarrow> False | Some r \<Rightarrow> ok r)"
      using reads t by (auto simp: write_accepted_def list_ex_iff list_all_iff commit_request_simps)
    have only: "\<forall>rq. rq \<in> set t \<and> f_method rq = PUT \<longrightarrow> rq = commit_request env enc sha"
      using t not_put_in_reads [OF reads] by auto
    show ?thesis
    proof (cases "fetch w (commit_request env enc sha)")
      case None
      have nacc: "\<not> write_accepted w t" using acc None by simp
      have H: "handleSavePrompts w request env =
               (json_response 500 (obj [(js ''error'',
                   Some (JStr (js ''Internal Server Error during prompt saving: ''
                               @ message_of w (Native NetworkError))))]), t)"
        using unf r None by simp
      have nothing: "\<And>rq r. rq \<in> set t \<Longrightarrow> f_method rq = PUT \<Longrightarrow> fetch w rq = Some r \<Longrightarrow> False"
        using only None by auto
      have last: "\<forall>rq r. rq \<in> set t \<and> f_method rq = PUT \<and> fetch w rq = Some r \<and> \<not> ok r \<longrightarrow>
            (json_response 500 (obj [(js ''error'',
                   Some (JStr (js ''Internal Server Error during prompt saving: ''
                               @ message_of w (Native NetworkError))))])) = json_response 500
                     (obj [(js ''error'',
                        Some (JStr (js ''Internal Server Error during prompt saving: ''
                          @ js ''Failed to commit to GitHub: '' @ dec (r_status r) @ js '' - ''
                          @ raw (r_body r))))])"
          using only None by auto
      show ?thesis
        unfolding H using nacc True last
        by (simp add: status_json_response payload_error_response)
    next
      case (Some a)
      show ?thesis
      proof (cases "ok a")
        case ok: True
        have yes: "write_accepted w t" using acc Some ok by simp
        have H: "handleSavePrompts w request env = (saved_response, t)"
          using unf r Some ok by simp
        have nothing: "\<And>rq r. rq \<in> set t \<Longrightarrow> f_method rq = PUT \<Longrightarrow> fetch w rq = Some r \<Longrightarrow> ok r"
          using only Some ok by auto
        have last: "\<forall>rq r. rq \<in> set t \<and> f_method rq = PUT \<and> fetch w rq = Some r \<and> \<not> ok r \<longrightarrow>
            saved_response = json_response 500
                     (obj [(js ''error'',
                        Some (JStr (js ''Internal Server Error during prompt saving: ''
                          @ js ''Failed to commit to GitHub: '' @ dec (r_status r) @ js '' - ''
                          @ raw (r_body r))))])"
          using only Some ok by auto
        show ?thesis
          unfolding H using yes True last
          by (simp add: status_saved_response)
      next
        case bad: False
        have nacc: "\<not> write_accepted w t" using acc Some bad by simp
        have H: "handleSavePrompts w request env =
               (json_response 500 (obj [(js ''error'',
                   Some (JStr (js ''Internal Server Error during prompt saving: ''
                               @ js ''Failed to commit to GitHub: '' @ dec (r_status a)
                               @ js '' - '' @ raw (r_body a))))]), t)"
          using unf r Some bad by simp
        have same: "\<And>rq r. rq \<in> set t \<Longrightarrow> f_method rq = PUT \<Longrightarrow> fetch w rq = Some r \<Longrightarrow> r = a"
          using only Some by auto
        have last: "\<forall>rq r. rq \<in> set t \<and> f_method rq = PUT \<and> fetch w rq = Some r \<and> \<not> ok r \<longrightarrow>
            (json_response 500 (obj [(js ''error'',
                   Some (JStr (js ''Internal Server Error during prompt saving: ''
                               @ js ''Failed to commit to GitHub: '' @ dec (r_status a)
                               @ js '' - '' @ raw (r_body a))))])) = json_response 500
                     (obj [(js ''error'',
                        Some (JStr (js ''Internal Server Error during prompt saving: ''
                          @ js ''Failed to commit to GitHub: '' @ dec (r_status r) @ js '' - ''
                          @ raw (r_body r))))])"
          using only Some by auto
        show ?thesis
          unfolding H using nacc True last
          by (simp add: status_json_response payload_error_response)
      qed
    qed
  qed
qed

theorem handleSavePrompts_outcome_witness:
  "handleSavePrompts (online (reply 200 ''OK'' ''{}'' None)) \<lparr>json_body = Some (JArr [])\<rparr> sample_env
     = (saved_response,
        [metadata_request (Some (js ''shop'')) (Some (js ''assistant'')) (Some (js ''prompts.json'')),
         content_request (Some (JStr (js ''https://raw/prompts.json''))),
         commit_request sample_env (js ''W10='') (Some (JStr (js ''T1'')))])
   \<and> fst (handleSavePrompts (online (reply 409 ''Conflict'' ''stale sha'' None))
            \<lparr>json_body = Some (JArr [])\<rparr> sample_env)
     = json_response 500
         (obj [(js ''error'',
            Some (JStr (js ''Internal Server Error during prompt saving: Failed to commit to GitHub: 409 - stale sha'')))])
   \<and> handleSavePrompts (online (reply 200 ''OK'' ''{}'' None)) \<lparr>json_body = Some (JArr [])\<rparr>
         (sample_env\<lparr>GITHUB_PAT := None\<rparr>)
     = (json_response 500
          (obj [(js ''error'', Some (JStr (js ''GITHUB_PAT secret is not configured.'')))]), [])"
proof -
  let ?R = "\<lparr>json_body = Some (JArr [])\<rparr>"
  let ?t = "[metadata_request (Some (js ''shop'')) (Some (js ''assistant'')) (Some (js ''prompts.json'')),
             content_request (Some (JStr (js ''https://raw/prompts.json''))),
             commit_request sample_env (js ''W10='') (Some (JStr (js ''T1'')))]"
  have t1: "snd (handleSavePrompts (online (reply 200 ''OK'' ''{}'' None)) ?R sample_env) = ?t"
    by (simp add: model_defs sample_defs js_def)
  have a1: "write_accepted (online (reply 200 ''OK'' ''{}'' None)) ?t"
    by (simp add: write_accepted_def model_defs sample_defs js_def)
  have 1: "handleSavePrompts (online (reply 200 ''OK'' ''{}'' None)) ?R sample_env = (saved_response, ?t)"
    using handleSavePrompts_outcome [where w = "online (reply 200 ''OK'' ''{}'' None)"
            and request = ?R and env = sample_env] t1 a1
    by (cases "handleSavePrompts (online (reply 200 ''OK'' ''{}'' None)) ?R sample_env") simp
  have t2: "snd (handleSavePrompts (online (reply 409 ''Conflict'' ''stale sha'' None)) ?R sample_env) = ?t"
    by (simp add: model_defs sample_defs js_def)
  have r2: "fetch (online (reply 409 ''Conflict'' ''stale sha'' None))
              (commit_request sample_env (js ''W10='') (Some (JStr (js ''T1''))))
            = Some (reply 409 ''Conflict'' ''stale sha'' None)"
    by (simp add: model_defs sample_defs)
  have n2: "\<not> ok (reply 409 ''Conflict'' ''stale sha'' None)"
    by (simp add: ok_def reply_def)
  have d: "dec 409 = js ''409''"
    by (simp add: dec.simps js_def)
  obtain resp t where H: "handleSavePrompts (online (reply 409 ''Conflict'' ''stale sha'' None)) ?R sample_env
                            = (resp, t)"
    by (cases "handleSavePrompts (online (reply 409 ''Conflict'' ''stale sha'' None)) ?R sample_env")
  have t: "t = ?t" using t2 H by simp
  have every: "\<forall>rq r. rq \<in> set t \<and> f_method rq = PUT
               \<and> fetch (online (reply 409 ''Conflict'' ''stale sha'' None)) rq = Some r \<and> \<not> ok r \<longrightarrow>
            resp = json_response 500
                     (obj [(js ''error'',
                        Some (JStr (js ''Internal Server Error during prompt saving: ''
                          @ js ''Failed to commit to GitHub: '' @ dec (r_status r) @ js '' - ''
                          @ raw (r_body r))))])"
    using handleSavePrompts_outcome [where w = "online (reply 409 ''Conflict'' ''stale sha'' None)"
            and request = ?R and env = sample_env] H
    by simp
  have this_one: "commit_request sample_env (js ''W10='') (Some (JStr (js ''T1''))) \<in> set t
       \<and> f_method (commit_request sample_env (js ''W10='') (Some (JStr (js ''T1'')))) = PUT
       \<and> fetch (online (reply 409 ''Conflict'' ''stale sha'' None))
            (commit_request sample_env (js ''W10='') (Some (JStr (js ''T1''))))
          = Some (reply 409 ''Conflict'' ''stale sha'' None)
       \<and> \<not> ok (reply 409 ''Conflict'' ''stale sha'' None)"
    using t r2 n2 by (simp add: commit_request_simps)
  from every [rule_format, OF this_one]
  have 2: "fst (handleSavePrompts (online (reply 409 ''Conflict'' ''stale sha'' None)) ?R sample_env)
     = json_response 500
         (obj [(js ''error'',
            Some (JStr (js ''Internal Server Error during prompt saving: Failed to commit to GitHub: 409 - stale sha'')))])"
    using H d by (simp add: reply_def js_def)
  have c3: "\<not> configured (GITHUB_PAT (sample_env\<lparr>GITHUB_PAT := None\<rparr>))"
    by simp
  have 3: "handleSavePrompts (online (reply 200 ''OK'' ''{}'' None)) ?R (sample_env\<lparr>GITHUB_PAT := None\<rparr>)
     = (json_response 500
          (obj [(js ''error'', Some (JStr (js ''GITHUB_PAT secret is not configured.'')))]), [])"
    using handleSavePrompts_outcome [where w = "online (reply 200 ''OK'' ''{}'' None)"
            and request = ?R and env = "sample_env\<lparr>GITHUB_PAT := None\<rparr>"] c3
    by (cases "handleSavePrompts (online (reply 200 ''OK'' ''{}'' None)) ?R
                 (sample_env\<lparr>GITHUB_PAT := None\<rparr>)") simp
  from 1 2 3 show ?thesis by simp
qed

section \<open>The chat handler\<close>

text \<open>
  Claim C7. A chat request is the JSON value of the body with its members \<open>message\<close> and
  \<open>function_id\<close>; reading a member succeeds on every value but \<open>null\<close>. When one of
  the two members is missing or is the empty string, \<open>handleChat\<close> answers 400 with the
  validation error and has made no request at all, neither to the document store nor to the
  completion backend; whichever document the store holds plays no part.
\<close>

theorem handleChat_validation:
  assumes "json_body request = Some b"
    and "get (Some b) (js ''message'') = Inr message"
    and "get (Some b) (js ''function_id'') = Inr function_id"
    and "message \<in> {None, Some (JStr [])} \<or> function_id \<in> {None, Some (JStr [])}"
  shows "handleChat w request env =
           (json_response 400
              (obj [(js ''error'',
                 Some (JStr (js ''Missing '' @ [0x27] @ js ''message'' @ [0x27]
                   @ js '' or '' @ [0x27] @ js ''function_id'' @ [0x27])))]), [])"
  using assms
  by (auto simp: handleChat_def handleChat_try_def request_json_def then_io_simps ret_def)

theorem handleChat_validation_witness:
  "handleChat (online (reply 200 ''OK'' ''{}'' None)) (chat_request [] ''a'') sample_env =
     (json_response 400
        (obj [(js ''error'',
           Some (JStr (js ''Missing '' @ [0x27] @ js ''message'' @ [0x27]
             @ js '' or '' @ [0x27] @ js ''function_id'' @ [0x27])))]), [])
   \<and> handleChat offline \<lparr>json_body = Some (JObj [(js ''message'', JStr (js ''hi''))])\<rparr> sample_env =
     (json_response 400
        (obj [(js ''error'',
           Some (JStr (js ''Missing '' @ [0x27] @ js ''message'' @ [0x27]
             @ js '' or '' @ [0x27] @ js ''function_id'' @ [0x27])))]), [])"
proof -
  have b1: "json_body (chat_request [] ''a'')
              = Some (JObj [(js ''message'', JStr []), (js ''function_id'', JStr (js ''a''))])"
    by (simp add: chat_request_def js_def)
  have m1: "get (Some (JObj [(js ''message'', JStr []), (js ''function_id'', JStr (js ''a''))]))
              (js ''message'') = Inr (Some (JStr []))"
    by (simp add: js_def)
  have f1: "get (Some (JObj [(js ''message'', JStr []), (js ''function_id'', JStr (js ''a''))]))
              (js ''function_id'') = Inr (Some (JStr (js ''a'')))"
    by (simp add: js_def)
  have e1: "Some (JStr []) \<in> {None, Some (JStr [])} \<or> Some (JStr (js ''a'')) \<in> {None, Some (JStr [])}"
    by simp
  have m2: "get (Some (JObj [(js ''message'', JStr (js ''hi''))])) (js ''message'')
              = Inr (Some (JStr (js ''hi'')))"
    by (simp add: js_def)
  have f2: "get (Some (JObj [(js ''message'', JStr (js ''hi''))])) (js ''function_id'') = Inr None"
    by (simp add: js_def)
  have e2: "Some (JStr (js ''hi'')) \<in> {None, Some (JStr [])} \<or> None \<in> {None, Some (JStr [])}"
    by simp
  show ?thesis
    using handleChat_validation [OF b1 m1 f1 e1] handleChat_validation [OF _ m2 f2 e2]
    by simp
qed

text \<open>
  Claim C6. Let the request carry a message and a \<open>function_id\<close>, let the API key be
  configured, and let the document fetched from the store be an array of prompt entries none of
  whose \<open>id\<close> is the \<open>function_id\<close>. Let \<open>shown\<close> be the text of the
  \<open>function_id\<close> inside the error message: the \<open>function_id\<close> itself when it is a
  string, as an identifier is. (The conversion fails only on an object with a \<open>toString\<close>
  member of its own and on an array holding one.) Then \<open>handleChat\<close> answers 404 with the
  not-found error, and the requests it has made are those of the document fetch alone, all of
  them GETs: the completion backend, which is reached by a POST, is never invoked.
\<close>

theorem handleChat_unknown_function:
  assumes "json_body request = Some b"
    and "get (Some b) (js ''message'') = Inr message"
    and "get (Some b) (js ''function_id'') = Inr function_id"
    and "truthy message" and "truthy function_id"
    and "to_str w function_id = Inr shown"
    and "configured (GEMINI_API_KEY env)"
    and "fetchPromptsFromGitHub w (GITHUB_OWNER env) (GITHUB_REPO env) (PROMPTS_PATH env)
           = (Inr (content, sha), t)"
    and "parsed content = Some (JArr prompts)"
    and "\<forall>p \<in> set prompts. \<exists>pid. get (Some p) (js ''id'') = Inr pid \<and> pid \<noteq> function_id"
  shows "handleChat w request env =
           (json_response 404
              (obj [(js ''error'',
                 Some (JStr (js ''Function ID '' @ [0x27] @ shown @ [0x27]
                   @ js '' not found.'')))]), t)
         \<and> list_all (\<lambda>rq. f_method rq = GET) t"
  using assms find_prompt_none [OF assms(10)] fetchPrompts_only_reads [OF assms(8)]
  by (simp add: handleChat_def handleChat_try_def request_json_def JSON_parse_def then_io_simps
        ret_def)

theorem handleChat_unknown_function_witness:
  "handleChat (online (reply 200 ''OK'' ''{}'' None)) (chat_request ''hi'' ''zzz'') sample_env =
     (json_response 404
        (obj [(js ''error'',
           Some (JStr (js ''Function ID '' @ [0x27] @ js ''zzz'' @ [0x27] @ js '' not found.'')))]),
      [metadata_request (Some (js ''shop'')) (Some (js ''assistant'')) (Some (js ''prompts.json'')),
       content_request (Some (JStr (js ''https://raw/prompts.json'')))])"
proof -
  let ?w = "online (reply 200 ''OK'' ''{}'' None)"
  let ?b = "JObj [(js ''message'', JStr (js ''hi'')), (js ''function_id'', JStr (js ''zzz''))]"
  let ?t = "[metadata_request (Some (js ''shop'')) (Some (js ''assistant'')) (Some (js ''prompts.json'')),
             content_request (Some (JStr (js ''https://raw/prompts.json'')))]"
  let ?ps = "[JObj [(js ''id'', JStr (js ''a'')), (js ''prompt'', JStr (js ''Hello {{name}}''))],
              JObj [(js ''id'', JStr (js ''b'')), (js ''prompt'', JStr (js ''Size: {{size_chart}}''))]]"
  have 1: "json_body (chat_request ''hi'' ''zzz'') = Some ?b"
    by (simp add: chat_request_def)
  have 2: "get (Some ?b) (js ''message'') = Inr (Some (JStr (js ''hi'')))"
    by (simp add: js_def)
  have 3: "get (Some ?b) (js ''function_id'') = Inr (Some (JStr (js ''zzz'')))"
    by (simp add: js_def)
  have 4: "truthy (Some (JStr (js ''hi'')))" by (simp add: js_def)
  have 5: "truthy (Some (JStr (js ''zzz'')))" by (simp add: js_def)
  have 6: "to_str ?w (Some (JStr (js ''zzz''))) = Inr (js ''zzz'')" by (simp add: to_str_def)
  have 7: "configured (GEMINI_API_KEY sample_env)" by (simp add: sample_env_def js_def)
  have 8: "fetchPromptsFromGitHub ?w (GITHUB_OWNER sample_env) (GITHUB_REPO sample_env)
             (PROMPTS_PATH sample_env)
           = (Inr (r_body sample_document, Some (JStr (js ''T1''))), ?t)"
    by (simp add: model_defs sample_defs js_def)
  have 9: "parsed (r_body sample_document) = Some (JArr ?ps)"
    by (simp add: sample_document_def reply_def)
  have 10: "\<forall>p \<in> set ?ps. \<exists>pid. get (Some p) (js ''id'') = Inr pid \<and> pid \<noteq> Some (JStr (js ''zzz''))"
    by (simp add: js_def)
  from handleChat_unknown_function [OF 1 2 3 4 5 6 7 8 9 10] show ?thesis
    by simp
qed

text \<open>
  The bound of the conversion: a string prints as itself, and a \<open>function_id\<close> that is an
  object with a \<open>toString\<close> member of its own makes the template literal of the 404 branch
  raise, which the \<open>catch\<close> block answers with 500.
\<close>

lemma to_str_string: "to_str w (Some (JStr s)) = Inr s"
  by (simp add: to_str_def)

lemma handleChat_unprintable_function_id:
  "fst (handleChat (online (reply 200 ''OK'' ''{}'' None))
         \<lparr>json_body = Some (JObj [(js ''message'', JStr (js ''hi'')),
                                  (js ''function_id'', JObj [(js ''toString'', JNum 1)])])\<rparr>
         sample_env)
   = json_response 500
       (obj [(js ''error'',
          Some (JStr (js ''Internal Server Error during chat processing: ''
                      @ native_message (online (reply 200 ''OK'' ''{}'' None)) TypeError)))])"
  by (simp add: model_defs sample_defs js_def strict_eq_def)

subsection \<open>Failures of the document fetch\<close>








section \<open>The completion client\<close>

text \<open>
  Claim C5. A well-formed answer of the completion backend without a text segment is to yield
  the fixed fallback text, never an error. The guard of \<open>callGeminiApi\<close> tests
  \<open>content.parts\<close> for truthiness only, and an empty array is truthy: for the answer
  \<open>{"candidates": [{"content": {"parts": []}}]}\<close> with status 200 the read
  \<open>parts[0].text\<close> raises a TypeError.
\<close>

theorem callGeminiApi_empty_parts:
  "callGeminiApi (sample_world (answers None None None (Some empty_parts_completion)))
     (Some (JStr (js ''Hello''))) (Some (JStr (js ''hi''))) (js ''key'')
   = (Inl (Native TypeError), [gemini_request (js ''key'') (js ''Hello'')])"
  by (simp add: model_defs sample_defs js_def finalPrompt_def replace_g_def)

text \<open>Without candidates the fixed text is returned, as the claim has it.\<close>

lemma extract_text_no_candidates:
  "extract_text (JObj []) = Inr (Some (JStr fallback_text))"
  "extract_text (JObj [(js ''candidates'', JArr [])]) = Inr (Some (JStr fallback_text))"
  by (simp_all add: extract_text_def thenE_def js_def)

section \<open>The webhook handler\<close>

text \<open>
  Claim C10. Let the bot token be configured and let the body parse to a JSON value whose
  \<open>message\<close> member can be read (every value but \<open>null\<close>). When there is no message, or
  the message has no text (more generally: when either is falsy), \<open>handleTelegramWebhook\<close>
  answers 200 with the body \<open>OK\<close> and has made no request: the prompt document is not read,
  the completion backend is not called, no Telegram message is sent.
\<close>

theorem webhook_ignores_textless_updates:
  assumes "configured (TELEGRAM_BOT_TOKEN env)"
    and "json_body request = Some update"
    and "get (Some update) (js ''message'') = Inr message"
    and "\<not> truthy message \<or> (\<exists>message_text. get message (js ''text'') = Inr message_text \<and> \<not> truthy message_text)"
  shows "handleTelegramWebhook w request env = (Inr (text_response 200 (js ''OK'')), [])"
  using assms
  by (auto simp: handleTelegramWebhook_def handleTelegramWebhook_try_def request_json_def
        then_io_simps ret_def)

theorem webhook_ignores_textless_updates_witness:
  "handleTelegramWebhook offline \<lparr>json_body = Some (JObj [(js ''update_id'', JNum 7)])\<rparr> sample_env
     = (Inr (text_response 200 (js ''OK'')), [])
   \<and> handleTelegramWebhook offline
        \<lparr>json_body = Some (JObj [(js ''message'', JObj [(js ''chat'', JObj [(js ''id'', JNum 7)])])])\<rparr>
        sample_env
     = (Inr (text_response 200 (js ''OK'')), [])"
proof -
  have c: "configured (TELEGRAM_BOT_TOKEN sample_env)"
    by (simp add: sample_env_def js_def)
  have a: "get (Some (JObj [(js ''update_id'', JNum 7)])) (js ''message'') = Inr None"
    by (simp add: js_def)
  have b: "get (Some (JObj [(js ''message'', JObj [(js ''chat'', JObj [(js ''id'', JNum 7)])])]))
             (js ''message'') = Inr (Some (JObj [(js ''chat'', JObj [(js ''id'', JNum 7)])]))"
    by (simp add: js_def)
  have b': "get (Some (JObj [(js ''chat'', JObj [(js ''id'', JNum 7)])])) (js ''text'') = Inr None"
    by (simp add: js_def)
  show ?thesis
    using webhook_ignores_textless_updates [OF c _ a, of _ offline]
      webhook_ignores_textless_updates [OF c _ b, of _ offline] b'
    by simp
qed

text \<open>
  Claim C4. On an internal failure the handler is to answer 500 with the body \<open>Error\<close>, no
  exception leaving it. A text message arrives while no outbound request gets through: the
  \<open>catch\<close> block is entered, reads \<open>update\<close>, which is out of scope there, and the
  ReferenceError leaves the handler.
\<close>

theorem handleTelegramWebhook_error_escapes:
  "fst (handleTelegramWebhook offline (text_update ''hi'') sample_env) = Inl (Native ReferenceError)"
  by (simp add: model_defs sample_defs js_def trim_def white_space_def)

text \<open>
  In general: every failure inside the \<open>try\<close> block leaves the handler as a ReferenceError,
  and no input at all makes the handler answer 500 with the body \<open>Error\<close>.
\<close>

lemma then_io_InrE:
  assumes "then_io m f = (Inr r, t)"
  obtains a t1 t2 where "m = (Inr a, t1)" and "f a = (Inr r, t2)" and "t = t1 @ t2"
  using assms by (auto simp: then_io_def split: prod.splits sum.splits)

lemma webhook_try_answers_OK:
  assumes "handleTelegramWebhook_try w request env = (Inr r, t)"
  shows "r = text_response 200 (js ''OK'')"
  using assms unfolding handleTelegramWebhook_try_def
  by (auto elim!: then_io_InrE simp: ret_def split: if_splits)

lemma handleTelegramWebhook_failure_escapes:
  assumes "configured (TELEGRAM_BOT_TOKEN env)"
    and "handleTelegramWebhook_try w request env = (Inl e, t)"
  shows "handleTelegramWebhook w request env = (Inl (Native ReferenceError), t)"
  using assms by (simp add: handleTelegramWebhook_def)

lemma handleTelegramWebhook_never_answers_Error:
  "fst (handleTelegramWebhook w request env) \<noteq> Inr (text_response 500 (js ''Error''))"
proof (cases "configured (TELEGRAM_BOT_TOKEN env)")
  case False
  then show ?thesis
    by (simp add: handleTelegramWebhook_def ret_def text_response_def js_def)
next
  case True
  obtain res t where b: "handleTelegramWebhook_try w request env = (res, t)"
    by (cases "handleTelegramWebhook_try w request env")
  show ?thesis
  proof (cases res)
    case (Inl e)
    then show ?thesis using True b by (simp add: handleTelegramWebhook_def)
  next
    case (Inr r)
    then have "r = text_response 200 (js ''OK'')"
      using b webhook_try_answers_OK by simp
    then show ?thesis
      using True b Inr by (simp add: handleTelegramWebhook_def text_response_def)
  qed
qed

end
